theory Spec2Isabelle
  imports Main
begin

section \<open>Python values and the dynamic operations the programs use\<close>

text \<open>
  The servers and clients work on decoded JSON documents and on the dictionaries of the
  LLM service, all of them untyped Python values. A value is one of the JSON shapes;
  Python's \<open>None\<close> is \<open>JNull\<close>. A float is kept as its \<open>repr\<close> (the text Python prints
  for it, as in \<open>72.5\<close>, \<open>nan\<close>), a string is a list of code points below 256, and a
  dictionary is the list of its items in insertion order.
\<close>

datatype json =
    JNull
  | JBool bool
  | JInt int
  | JFloat string
  | JString string
  | JArray "json list"
  | JObject "(string \<times> json) list"

text \<open>The exceptions the modelled code can raise; all of them derive from \<open>Exception\<close>.\<close>

datatype exc =
    KeyError json
  | IndexError
  | TypeError
  | AttributeError
  | ValueError string
  | AssertionError
  | FileNotFoundError string
  | FastMCPError string
  | TransportError
  | TimeoutException
  | HTTPStatusError nat
  | JSONDecodeError
  | ServiceError string

type_synonym 'a result = "exc + 'a"

definition bind_exc :: "'a result \<Rightarrow> ('a \<Rightarrow> 'b result) \<Rightarrow> 'b result" where
  "bind_exc m f = (case m of Inl e \<Rightarrow> Inl e | Inr a \<Rightarrow> f a)"

fun map_exc :: "('a \<Rightarrow> 'b result) \<Rightarrow> 'a list \<Rightarrow> 'b list result" where
  "map_exc f [] = Inr []"
| "map_exc f (x # xs) =
     bind_exc (f x) (\<lambda>y. bind_exc (map_exc f xs) (\<lambda>ys. Inr (y # ys)))"

text \<open>\<open>bool(v)\<close>, as \<open>not v\<close> and \<open>if v\<close> use it.\<close>

fun truthy :: "json \<Rightarrow> bool" where
  "truthy JNull = False"
| "truthy (JBool b) = b"
| "truthy (JInt i) = (i \<noteq> 0)"
| "truthy (JFloat r) = (r \<noteq> ''0.0'' \<and> r \<noteq> ''-0.0'')"
| "truthy (JString s) = (s \<noteq> [])"
| "truthy (JArray xs) = (xs \<noteq> [])"
| "truthy (JObject kvs) = (kvs \<noteq> [])"

text \<open>\<open>v[k]\<close> for a string key \<open>k\<close>.\<close>

fun subscript :: "json \<Rightarrow> string \<Rightarrow> json result" where
  "subscript (JObject kvs) k =
     (case map_of kvs k of None \<Rightarrow> Inl (KeyError (JString k)) | Some v \<Rightarrow> Inr v)"
| "subscript _ k = Inl TypeError"

text \<open>\<open>v[0]\<close>.\<close>

fun subscript0 :: "json \<Rightarrow> json result" where
  "subscript0 (JArray []) = Inl IndexError"
| "subscript0 (JArray (x # xs)) = Inr x"
| "subscript0 (JString []) = Inl IndexError"
| "subscript0 (JString (c # cs)) = Inr (JString [c])"
| "subscript0 (JObject kvs) = Inl (KeyError (JInt 0))"
| "subscript0 _ = Inl TypeError"

text \<open>\<open>needle in hay\<close> for strings: \<open>needle\<close> occurs in \<open>hay\<close> as a contiguous block.\<close>

fun starts_with :: "string \<Rightarrow> string \<Rightarrow> bool" where
  "starts_with [] s = True"
| "starts_with (p # ps) [] = False"
| "starts_with (p # ps) (c # cs) = (p = c \<and> starts_with ps cs)"

fun is_substring :: "string \<Rightarrow> string \<Rightarrow> bool" where
  "is_substring needle [] = (needle = [])"
| "is_substring needle (c # cs) = (starts_with needle (c # cs) \<or> is_substring needle cs)"

text \<open>\<open>k in v\<close> for a string \<open>k\<close>.\<close>

fun contains_str :: "string \<Rightarrow> json \<Rightarrow> bool result" where
  "contains_str k (JObject kvs) = Inr (k \<in> set (map fst kvs))"
| "contains_str k (JArray xs) = Inr (JString k \<in> set xs)"
| "contains_str k (JString s) = Inr (is_substring k s)"
| "contains_str k _ = Inl TypeError"

text \<open>The items a \<open>for\<close> loop or a comprehension runs over.\<close>

fun py_iter :: "json \<Rightarrow> json list result" where
  "py_iter (JArray xs) = Inr xs"
| "py_iter (JString s) = Inr (map (\<lambda>c. JString [c]) s)"
| "py_iter (JObject kvs) = Inr (map (\<lambda>kv. JString (fst kv)) kvs)"
| "py_iter _ = Inl TypeError"

text \<open>\<open>v.get(k, default)\<close>: only a dictionary has the method.\<close>

fun py_get :: "json \<Rightarrow> string \<Rightarrow> json \<Rightarrow> json result" where
  "py_get (JObject kvs) k d = Inr (case map_of kvs k of None \<Rightarrow> d | Some v \<Rightarrow> v)"
| "py_get _ k d = Inl AttributeError"

text \<open>
  \<open>v[:5]\<close>. A dictionary refuses the slice (with a \<open>TypeError\<close>; from Python 3.12 on,
  where a slice is hashable, with a \<open>KeyError\<close>).
\<close>

fun slice5 :: "json \<Rightarrow> json result" where
  "slice5 (JArray xs) = Inr (JArray (take 5 xs))"
| "slice5 (JString s) = Inr (JString (take 5 s))"
| "slice5 _ = Inl TypeError"

text \<open>\<open>sep.join(xs)\<close>.\<close>

fun str_join :: "string \<Rightarrow> string list \<Rightarrow> string" where
  "str_join sep [] = []"
| "str_join sep [x] = x"
| "str_join sep (x # y # ys) = x @ sep @ str_join sep (y # ys)"

subsection \<open>\<open>str\<close> and \<open>repr\<close>, as f-strings use them\<close>

definition digit_char :: "nat \<Rightarrow> char" where
  "digit_char d = ''0123456789'' ! d"

fun str_nat :: "nat \<Rightarrow> string" where
  "str_nat n = (if n < 10 then [digit_char n] else str_nat (n div 10) @ [digit_char (n mod 10)])"

definition str_int :: "int \<Rightarrow> string" where
  "str_int i = (if i < 0 then CHR ''-'' # str_nat (nat (- i)) else str_nat (nat i))"

definition hex_char :: "nat \<Rightarrow> char" where
  "hex_char d = ''0123456789abcdef'' ! d"

definition printable :: "char \<Rightarrow> bool" where
  "printable c = (let n = (of_char c :: nat) in (32 \<le> n \<and> n < 127) \<or> (161 \<le> n \<and> n \<noteq> 173))"

definition repr_char :: "char \<Rightarrow> char \<Rightarrow> string" where
  "repr_char q c =
     (if c = q \<or> c = CHR 0x5C then [CHR 0x5C, c]
      else if c = CHR 0x09 then [CHR 0x5C, CHR ''t'']
      else if c = CHR 0x0A then [CHR 0x5C, CHR ''n'']
      else if c = CHR 0x0D then [CHR 0x5C, CHR ''r'']
      else if printable c then [c]
      else [CHR 0x5C, CHR ''x'', hex_char (of_char c div 16), hex_char (of_char c mod 16)])"

definition repr_str :: "string \<Rightarrow> string" where
  "repr_str s =
     (let q = (if CHR 0x27 \<in> set s \<and> CHR 0x22 \<notin> set s then CHR 0x22 else CHR 0x27)
      in q # concat (map (repr_char q) s) @ [q])"

fun py_repr :: "json \<Rightarrow> string" where
  "py_repr JNull = ''None''"
| "py_repr (JBool b) = (if b then ''True'' else ''False'')"
| "py_repr (JInt i) = str_int i"
| "py_repr (JFloat r) = r"
| "py_repr (JString s) = repr_str s"
| "py_repr (JArray xs) = ''['' @ str_join '', '' (map py_repr xs) @ '']''"
| "py_repr (JObject kvs) =
     ''{'' @ str_join '', '' (map (\<lambda>kv. repr_str (fst kv) @ '': '' @ py_repr (snd kv)) kvs) @ ''}''"

text \<open>\<open>str(v)\<close>, which is what \<open>{v}\<close> in an f-string inserts.\<close>

definition py_str :: "json \<Rightarrow> string" where
  "py_str v = (case v of JString s \<Rightarrow> s | _ \<Rightarrow> py_repr v)"

section \<open>The weather server (\<open>oauth_github_api_server.py\<close>)\<close>

text \<open>
  What one HTTP request of \<open>httpx\<close> can end in: no connection, a timeout, or a response
  with a status code and a body. The world answers the \<open>n\<close>-th request of a tool call
  to a URL; decoding a body (\<open>response.json()\<close>) is the library's, taken as given:
  \<open>None\<close> stands for a body that does not decode.
\<close>

datatype http_outcome = NetworkError | Timeout | HttpResponse nat string

record http_env =
  http_get :: "nat \<Rightarrow> string \<Rightarrow> http_outcome"
  json_loads :: "string \<Rightarrow> json option"

definition NWS_API_BASE :: string where
  "NWS_API_BASE = ''https://api.weather.gov''"

text \<open>\<open>await client.get(url, ...)\<close>; a URL that is not a string is refused by the client.\<close>

definition client_get :: "http_env \<Rightarrow> nat \<Rightarrow> json \<Rightarrow> (nat \<times> string) result" where
  "client_get env n url =
     (case url of
        JString u \<Rightarrow>
          (case http_get env n u of
             NetworkError \<Rightarrow> Inl TransportError
           | Timeout \<Rightarrow> Inl TimeoutException
           | HttpResponse status body \<Rightarrow> Inr (status, body))
      | _ \<Rightarrow> Inl TypeError)"

text \<open>\<open>response.raise_for_status()\<close>: every status outside 200..299 raises.\<close>

definition raise_for_status :: "nat \<times> string \<Rightarrow> (nat \<times> string) result" where
  "raise_for_status r =
     (if 200 \<le> fst r \<and> fst r < 300 then Inr r else Inl (HTTPStatusError (fst r)))"

definition response_json :: "http_env \<Rightarrow> nat \<times> string \<Rightarrow> json result" where
  "response_json env r =
     (case json_loads env (snd r) of None \<Rightarrow> Inl JSONDecodeError | Some v \<Rightarrow> Inr v)"

text \<open>\<open>try: body except Exception: return None\<close>.\<close>

definition except_return_None :: "json result \<Rightarrow> json result" where
  "except_return_None body = (case body of Inl e \<Rightarrow> Inr JNull | Inr v \<Rightarrow> Inr v)"

definition make_nws_request :: "http_env \<Rightarrow> nat \<Rightarrow> json \<Rightarrow> json result" where
  "make_nws_request env n url =
     except_return_None
       (bind_exc (client_get env n url) (\<lambda>response.
        bind_exc (raise_for_status response) (\<lambda>response.
        response_json env response)))"

definition format_alert :: "json \<Rightarrow> string result" where
  "format_alert feature =
     bind_exc (subscript feature ''properties'') (\<lambda>props.
     bind_exc (py_get props ''event'' (JString ''Unknown'')) (\<lambda>event.
     bind_exc (py_get props ''areaDesc'' (JString ''Unknown'')) (\<lambda>area.
     bind_exc (py_get props ''severity'' (JString ''Unknown'')) (\<lambda>severity.
     bind_exc (py_get props ''description'' (JString ''No description available'')) (\<lambda>description.
     bind_exc (py_get props ''instruction'' (JString ''No specific instructions provided''))
       (\<lambda>instruction.
     Inr (''\<newline>        Event: '' @ py_str event
        @ ''\<newline>        Area: '' @ py_str area
        @ ''\<newline>        Severity: '' @ py_str severity
        @ ''\<newline>        Description: '' @ py_str description
        @ ''\<newline>        Instructions: '' @ py_str instruction
        @ ''\<newline>    '')))))))"

definition get_alerts :: "http_env \<Rightarrow> string \<Rightarrow> string result" where
  "get_alerts env state =
     bind_exc (make_nws_request env 0
                 (JString (NWS_API_BASE @ ''/alerts/active/area/'' @ state))) (\<lambda>data.
     if \<not> truthy data then Inr ''Unable to fetch alerts or no alerts found.''
     else bind_exc (contains_str ''features'' data) (\<lambda>has_features.
     if \<not> has_features then Inr ''Unable to fetch alerts or no alerts found.''
     else bind_exc (subscript data ''features'') (\<lambda>features.
     if \<not> truthy features then Inr ''No active alerts for this state.''
     else bind_exc (py_iter features) (\<lambda>fs.
     bind_exc (map_exc format_alert fs) (\<lambda>alerts.
     Inr (str_join ''\<newline>---\<newline>'' alerts))))))"

definition format_period :: "json \<Rightarrow> string result" where
  "format_period period =
     bind_exc (subscript period ''name'') (\<lambda>name.
     bind_exc (subscript period ''temperature'') (\<lambda>temperature.
     bind_exc (subscript period ''temperatureUnit'') (\<lambda>unit.
     bind_exc (subscript period ''windSpeed'') (\<lambda>windSpeed.
     bind_exc (subscript period ''windDirection'') (\<lambda>windDirection.
     bind_exc (subscript period ''detailedForecast'') (\<lambda>detailedForecast.
     Inr (''\<newline>            '' @ py_str name
        @ '':\<newline>            Temperature: '' @ py_str temperature
        @ [CHR 0xC2, CHR 0xB0] @ py_str unit
        @ ''\<newline>            Wind: '' @ py_str windSpeed @ '' '' @ py_str windDirection
        @ ''\<newline>            Forecast: '' @ py_str detailedForecast
        @ ''\<newline>            '')))))))"

text \<open>
  \<open>latitude\<close> and \<open>longitude\<close> are floats; each is given by the text \<open>str\<close> prints for
  it, which is all the function does with them.
\<close>

definition get_forecast :: "http_env \<Rightarrow> string \<Rightarrow> string \<Rightarrow> string result" where
  "get_forecast env latitude longitude =
     bind_exc (make_nws_request env 0
                 (JString (NWS_API_BASE @ ''/points/'' @ latitude @ '','' @ longitude)))
       (\<lambda>points_data.
     if \<not> truthy points_data then Inr ''Unable to fetch forecast data for this location.''
     else bind_exc (subscript points_data ''properties'') (\<lambda>points_properties.
     bind_exc (subscript points_properties ''forecast'') (\<lambda>forecast_url.
     bind_exc (make_nws_request env 1 forecast_url) (\<lambda>forecast_data.
     if \<not> truthy forecast_data then Inr ''Unable to fetch detailed forecast.''
     else bind_exc (subscript forecast_data ''properties'') (\<lambda>forecast_properties.
     bind_exc (subscript forecast_properties ''periods'') (\<lambda>periods.
     bind_exc (slice5 periods) (\<lambda>first5.
     bind_exc (py_iter first5) (\<lambda>ps.
     bind_exc (map_exc format_period ps) (\<lambda>forecasts.
     Inr (str_join ''\<newline>---\<newline>'' forecasts))))))))))"

subsection \<open>What the specification says of the weather tools\<close>

text \<open>
  The alert text in the specification's words: the fixed sentence when the response has
  no \<open>features\<close> list, the other fixed sentence when the list is empty, and otherwise one
  block per feature, a missing field replaced by its default, the blocks joined by the
  separator.
\<close>

definition has_properties :: "json \<Rightarrow> bool" where
  "has_properties f =
     (case f of
        JObject fk \<Rightarrow> (case map_of fk ''properties'' of Some (JObject p) \<Rightarrow> True | _ \<Rightarrow> False)
      | _ \<Rightarrow> False)"

definition properties_of :: "json \<Rightarrow> (string \<times> json) list" where
  "properties_of f =
     (case f of
        JObject fk \<Rightarrow> (case map_of fk ''properties'' of Some (JObject p) \<Rightarrow> p | _ \<Rightarrow> [])
      | _ \<Rightarrow> [])"

definition field_or :: "(string \<times> json) list \<Rightarrow> string \<Rightarrow> string \<Rightarrow> string" where
  "field_or props k d = (case map_of props k of None \<Rightarrow> d | Some v \<Rightarrow> py_str v)"

definition alert_block :: "json \<Rightarrow> string" where
  "alert_block f =
     ''\<newline>        Event: '' @ field_or (properties_of f) ''event'' ''Unknown''
     @ ''\<newline>        Area: '' @ field_or (properties_of f) ''areaDesc'' ''Unknown''
     @ ''\<newline>        Severity: '' @ field_or (properties_of f) ''severity'' ''Unknown''
     @ ''\<newline>        Description: ''
     @ field_or (properties_of f) ''description'' ''No description available''
     @ ''\<newline>        Instructions: ''
     @ field_or (properties_of f) ''instruction'' ''No specific instructions provided''
     @ ''\<newline>    ''"

definition alerts_text :: "json \<Rightarrow> string" where
  "alerts_text data =
     (case data of
        JObject kvs \<Rightarrow>
          (case map_of kvs ''features'' of
             Some (JArray fs) \<Rightarrow>
               if fs = [] then ''No active alerts for this state.''
               else str_join ''\<newline>---\<newline>'' (map alert_block fs)
           | _ \<Rightarrow> ''Unable to fetch alerts or no alerts found.'')
      | _ \<Rightarrow> ''Unable to fetch alerts or no alerts found.'')"

fun alerts_shape_ok :: "json \<Rightarrow> bool" where
  "alerts_shape_ok (JObject kvs) =
     (case map_of kvs ''features'' of
        None \<Rightarrow> True
      | Some (JArray fs) \<Rightarrow> list_all has_properties fs
      | Some _ \<Rightarrow> False)"
| "alerts_shape_ok v = (\<not> truthy v)"

text \<open>
  A forecast period carries the six fields the tool renders. Its block in the layout
  of the specification: the name, the temperature, the degree symbol (U+00B0) and the
  unit, the wind, the detailed forecast. \<open>stray\<close> is what a rendering puts between the
  temperature and the degree symbol: nothing, in the specification.
\<close>

definition period_fields :: "string list" where
  "period_fields = [''name'', ''temperature'', ''temperatureUnit'', ''windSpeed'',
     ''windDirection'', ''detailedForecast'']"

definition has_period_fields :: "json \<Rightarrow> bool" where
  "has_period_fields p =
     (case p of JObject kvs \<Rightarrow> list_all (\<lambda>k. map_of kvs k \<noteq> None) period_fields | _ \<Rightarrow> False)"

definition field_of :: "json \<Rightarrow> string \<Rightarrow> string" where
  "field_of p k =
     (case p of
        JObject kvs \<Rightarrow> (case map_of kvs k of Some v \<Rightarrow> py_str v | None \<Rightarrow> [])
      | _ \<Rightarrow> [])"

definition degree_symbol :: string where
  "degree_symbol = [CHR 0xB0]"

definition period_block :: "string \<Rightarrow> json \<Rightarrow> string" where
  "period_block stray p =
     ''\<newline>            '' @ field_of p ''name''
     @ '':\<newline>            Temperature: '' @ field_of p ''temperature''
     @ stray @ degree_symbol @ field_of p ''temperatureUnit''
     @ ''\<newline>            Wind: '' @ field_of p ''windSpeed'' @ '' '' @ field_of p ''windDirection''
     @ ''\<newline>            Forecast: '' @ field_of p ''detailedForecast''
     @ ''\<newline>            ''"

definition is_object :: "json \<Rightarrow> bool" where
  "is_object v = (case v of JObject kvs \<Rightarrow> True | _ \<Rightarrow> False)"

text \<open>
  The request fails: no connection, a timeout, a status outside 200..299, or a body
  that does not decode.
\<close>

definition request_fails :: "http_env \<Rightarrow> nat \<Rightarrow> string \<Rightarrow> bool" where
  "request_fails env n u =
     (case http_get env n u of
        NetworkError \<Rightarrow> True
      | Timeout \<Rightarrow> True
      | HttpResponse status body \<Rightarrow>
          \<not> (200 \<le> status \<and> status < 300) \<or> json_loads env body = None)"

definition points_url :: "string \<Rightarrow> string \<Rightarrow> string" where
  "points_url latitude longitude = NWS_API_BASE @ ''/points/'' @ latitude @ '','' @ longitude"

definition alerts_url :: "string \<Rightarrow> string" where
  "alerts_url state = NWS_API_BASE @ ''/alerts/active/area/'' @ state"

subsection \<open>Concrete worlds\<close>

text \<open>
  A world given by the outcome of each request, in order, and by what the bodies that
  occur decode to.
\<close>

definition scripted_env :: "(nat \<times> http_outcome) list \<Rightarrow> (string \<times> json) list \<Rightarrow> http_env" where
  "scripted_env outcomes decoded =
     \<lparr>http_get = (\<lambda>n u. case map_of outcomes n of Some r \<Rightarrow> r | None \<Rightarrow> NetworkError),
      json_loads = map_of decoded\<rparr>"

definition alerts_without_properties :: json where
  "alerts_without_properties = JObject [(''features'', JArray [JObject []])]"

definition alerts_without_properties_env :: http_env where
  \<open>alerts_without_properties_env =
     scripted_env [(0, HttpResponse 200 ''{"features": [{}]}'')]
       [(''{"features": [{}]}'', alerts_without_properties)]\<close>

definition two_alerts :: json where
  "two_alerts = JObject [(''features'', JArray
     [JObject [(''properties'', JObject [(''event'', JString ''Flood Warning''),
                                         (''areaDesc'', JString ''Marin'')])],
      JObject [(''properties'', JObject [(''severity'', JString ''Severe'')])]])]"

definition two_alerts_env :: http_env where
  \<open>two_alerts_env = scripted_env [(0, HttpResponse 200 ''two alerts'')] [(''two alerts'', two_alerts)]\<close>

section \<open>The space news server (\<open>io_api_sampling_server.py\<close>)\<close>

record date =
  date_year :: nat
  date_month :: nat
  date_day :: nat

text \<open>\<open>date.isoformat()\<close>: \<open>YYYY-MM-DD\<close>, each part padded with zeros.\<close>

definition zero_pad :: "nat \<Rightarrow> nat \<Rightarrow> string" where
  "zero_pad width n = replicate (width - length (str_nat n)) CHR ''0'' @ str_nat n"

definition isoformat :: "date \<Rightarrow> string" where
  "isoformat d = zero_pad 4 (date_year d) @ ''-'' @ zero_pad 2 (date_month d)
       @ ''-'' @ zero_pad 2 (date_day d)"

definition API_BASE :: string where
  "API_BASE = ''https://api.spaceflightnewsapi.net/v4/articles/''"

definition news_endpoint :: "date \<Rightarrow> string" where
  "news_endpoint d = API_BASE @ ''?published_at_gte='' @ isoformat d"

text \<open>\<open>try: body except Exception: return None\<close>, for a body that returns a list.\<close>

definition except_return_no_list :: "'a list result \<Rightarrow> 'a list option result" where
  "except_return_no_list body = (case body of Inl e \<Rightarrow> Inr None | Inr v \<Rightarrow> Inr (Some v))"

definition get_spaceflight_news_date ::
    "http_env \<Rightarrow> date \<Rightarrow> (json \<times> json) list option result" where
  "get_spaceflight_news_date env d =
     except_return_no_list
       (bind_exc (client_get env 0 (JString (news_endpoint d))) (\<lambda>response.
        bind_exc (raise_for_status response) (\<lambda>response.
        bind_exc (response_json env response) (\<lambda>doc.
        bind_exc (subscript doc ''results'') (\<lambda>results.
        bind_exc (py_iter results) (\<lambda>rs.
        map_exc (\<lambda>res.
          bind_exc (subscript res ''title'') (\<lambda>title.
          bind_exc (subscript res ''summary'') (\<lambda>summary.
          Inr (title, summary)))) rs))))))"

text \<open>What an MCP call hands back: the content kinds of the protocol.\<close>

datatype mcp_content =
    TextContent string
  | ImageContent
  | AudioContent
  | ResourceLink
  | EmbeddedResource

text \<open>
  The tool's world: the web, today's date, and the connected client's answer to a
  sampling request (\<open>ctx.sample\<close>), which may raise.
\<close>

record news_env =
  web :: http_env
  today :: date
  sample :: "string \<Rightarrow> mcp_content result"

definition translation_prompt :: "string \<Rightarrow> json \<Rightarrow> string" where
  \<open>translation_prompt language news_out =
     ''Translate the title and the summary of each news entry into the ''
       @ ''language ''
       @ language
       @ '' (ISO639 format).\<newline>''
       @ ''                \<newline>''
       @ ''                The input format is a  json list of key-value pairs ''
       @ ''with "title" : "News Title" and "summary" : "News Summary".\<newline>''
       @ ''                The expected return format must be a json list of ''
       @ ''key-value pairs with keys "title" and "summary", and the values must ''
       @ ''be translated into the specified language\<newline>''
       @ ''            \<newline>''
       @ ''                Example Language : DE\<newline>''
       @ ''                Example Input: \<newline>''
       @ ''                    [\<newline>''
       @ ''                        {'title' : "Live Coverage: SpaceX Falcon 9 to ''
       @ ''make another attempt to launch Amazon Project Kuiper mission",\<newline>''
       @ ''                        'summary' : "Liftoff from Space Launch ''
       @ ''Complex 40 at Cape Canaveral Space Force Station in Florida is ''
       @ ''scheduled for 8:57 a.m. EDT (1257 UTC), after three earlier attempts ''
       @ ''were scrubbed."}\<newline>''
       @ ''                    ]\<newline>''
       @ ''                Example Output:\<newline>''
       @ ''                    [\<newline>''
       @ ''                        {\<newline>''
       @ ''                        'title' : "Live '' @ [CHR 0xDC] @ ''bertragung: SpaceX Falcon 9 ''
       @ ''macht erneuten Cersuch f'' @ [CHR 0xFC] @ ''r Amazon Projekt Kuiper Mission",\<newline>''
       @ ''                        'summary' : "Start von Space Launch Complex ''
       @ ''40 auf Cape Canaveral Space Force Station in Florida ist geplant f'' @ [CHR 0xFC] @ ''r ''
       @ ''8:57 a.m. EDT (1257 UTC), nachdem dre vorherige Termine abgesagt ''
       @ ''wurden."}\<newline>''
       @ ''                    ]\<newline>''
       @ ''\<newline>''
       @ ''                Input News Data (json-format)\<newline>''
       @ ''                ''
       @ py_str news_out
       @ ''\<newline>''
       @ ''            ''\<close>

text \<open>The tool returns the list it built or, verbatim, what sampling returned.\<close>

datatype spacenews_output = NewsOut json | SamplingResponse mcp_content

definition news_entry :: "json \<times> json \<Rightarrow> json" where
  "news_entry news = JObject [(''title'', fst news), (''summary'', snd news)]"

text \<open>
  The result of a call, and beside it the prompts of the sampling calls it made, in
  order.
\<close>

definition get_todays_spacenews ::
    "news_env \<Rightarrow> string \<Rightarrow> spacenews_output result \<times> string list" where
  "get_todays_spacenews env language =
     (case get_spaceflight_news_date (web env) (today env) of
        Inl e \<Rightarrow> (Inl e, [])
      | Inr None \<Rightarrow> (Inl (FastMCPError ''API Call Failed.''), [])
      | Inr (Some news_today) \<Rightarrow>
          if news_today = [] then (Inl (FastMCPError ''API Call Failed.''), [])
          else
            let news_out = JArray (map news_entry news_today) in
            if language \<noteq> ''EN'' then
              let prompt = translation_prompt language news_out in
              (case sample env prompt of
                 Inl e \<Rightarrow>
                   (Inl (FastMCPError ''Translation failed, LLM Sampling not available.''),
                    [prompt])
               | Inr response \<Rightarrow> (Inr (SamplingResponse response), [prompt]))
            else (Inr (NewsOut news_out), []))"

subsection \<open>Worlds in which requests fail\<close>

definition timeout_env :: http_env where
  "timeout_env = scripted_env [(0, Timeout)] []"

definition sample_unavailable :: "string \<Rightarrow> mcp_content result" where
  "sample_unavailable prompt = Inl (ServiceError ''sampling not supported'')"

definition timeout_news_env :: news_env where
  "timeout_news_env =
     \<lparr>web = timeout_env, today = \<lparr>date_year = 2025, date_month = 4, date_day = 9\<rparr>, sample = sample_unavailable\<rparr>"

definition points_doc :: json where
  "points_doc = JObject [(''properties'',
     JObject [(''forecast'', JString ''https://api.weather.gov/gridpoints/MTR/84,105/forecast'')])]"

definition forecast_unavailable_env :: http_env where
  "forecast_unavailable_env =
     scripted_env [(0, HttpResponse 200 ''points''), (1, HttpResponse 503 ''unavailable'')]
       [(''points'', points_doc)]"

subsection \<open>Worlds with and without news\<close>

definition one_news :: "(json \<times> json) list" where
  "one_news = [(JString ''Starship flies'', JString ''The ninth flight test lifted off.'')]"

definition one_news_doc :: json where
  "one_news_doc = JObject [(''count'', JInt 1), (''results'', JArray
     [JObject [(''id'', JInt 7), (''title'', JString ''Starship flies''),
               (''summary'', JString ''The ninth flight test lifted off.'')]])]"

definition one_news_env :: news_env where
  "one_news_env =
     \<lparr>web = scripted_env [(0, HttpResponse 200 ''one article'')] [(''one article'', one_news_doc)],
      today = \<lparr>date_year = 2025, date_month = 4, date_day = 9\<rparr>,
      sample = sample_unavailable\<rparr>"

definition no_news_doc :: json where
  "no_news_doc = JObject [(''count'', JInt 0), (''results'', JArray [])]"

definition no_news_env :: news_env where
  "no_news_env =
     \<lparr>web = scripted_env [(0, HttpResponse 200 ''no article'')] [(''no article'', no_news_doc)],
      today = \<lparr>date_year = 2025, date_month = 4, date_day = 9\<rparr>,
      sample = sample_unavailable\<rparr>"

subsection \<open>Worlds answering the two requests of a forecast\<close>



definition forecast_doc :: "json list \<Rightarrow> json" where
  "forecast_doc periods = JObject [(''properties'', JObject [(''periods'', JArray periods)])]"

definition forecast_env :: "json \<Rightarrow> json \<Rightarrow> http_env" where
  "forecast_env points forecast =
     scripted_env [(0, HttpResponse 200 ''points''), (1, HttpResponse 200 ''forecast'')]
       [(''points'', points), (''forecast'', forecast)]"

definition problem_doc :: json where
  "problem_doc = JObject [(''title'', JString ''Unexpected Problem'')]"

definition points_without_forecast :: json where
  "points_without_forecast = JObject [(''properties'', JObject [(''gridId'', JString ''MTR'')])]"

definition forecast_without_periods :: json where
  "forecast_without_periods = JObject [(''properties'', JObject [(''units'', JString ''us'')])]"


section \<open>The sales resource server (\<open>io_resource_server.py\<close>)\<close>

text \<open>\<open>str.lower()\<close> on code points below 256: the letters A..Z and the accented capitals.\<close>

definition lower_char :: "char \<Rightarrow> char" where
  "lower_char c =
     (let n = (of_char c :: nat)
      in if (65 \<le> n \<and> n \<le> 90) \<or> (192 \<le> n \<and> n \<le> 222 \<and> n \<noteq> 215) then char_of (n + 32) else c)"

definition py_lower :: "string \<Rightarrow> string" where
  "py_lower s = map lower_char s"

text \<open>
  Paths, as \<open>pathlib\<close> builds them on POSIX: the text is cut at the slashes, empty and
  \<open>.\<close> components are dropped, and a leading slash makes the path absolute (exactly two
  leading slashes are kept as they are).
\<close>

fun split_on :: "char \<Rightarrow> string \<Rightarrow> string list" where
  "split_on sep [] = [[]]"
| "split_on sep (c # cs) =
     (case split_on sep cs of
        [] \<Rightarrow> (if c = sep then [[], []] else [[c]])
      | p # ps \<Rightarrow> (if c = sep then [] # p # ps else (c # p) # ps))"

definition path_root :: "string \<Rightarrow> string" where
  "path_root s =
     (if starts_with ''//'' s \<and> \<not> starts_with ''///'' s then ''//''
      else if starts_with ''/'' s then ''/''
      else [])"

definition path_parts :: "string \<Rightarrow> string list" where
  "path_parts s = filter (\<lambda>p. p \<noteq> [] \<and> p \<noteq> ''.'') (split_on CHR ''/'' s)"

text \<open>\<open>Path(s).as_posix()\<close>.\<close>

definition Path :: "string \<Rightarrow> string" where
  "Path s =
     (if path_root s = [] \<and> path_parts s = [] then ''.''
      else path_root s @ str_join ''/'' (path_parts s))"

text \<open>\<open>left / Path(right)\<close>, for a \<open>left\<close> that is a path already.\<close>

definition path_div :: "string \<Rightarrow> string \<Rightarrow> string" where
  "path_div left right =
     (if path_root right \<noteq> [] then Path right
      else if path_parts right = [] then left
      else if left = ''.'' then Path right
      else if left = ''/'' \<or> left = ''//'' then left @ Path right
      else left @ ''/'' @ Path right)"

text \<open>
  The server's world: the directory of the script (\<open>Path(__file__).parent\<close>), the regular
  files that exist with their contents, and what \<open>pandas\<close> makes of a file's content
  (\<open>read_csv(...).to_dict(orient='records')\<close>: the records, or an exception).
\<close>

record sales_env =
  base_path :: string
  files :: "string \<Rightarrow> string option"
  read_csv_records :: "string \<Rightarrow> json result"

definition sales_base_path :: "sales_env \<Rightarrow> string" where
  "sales_base_path env = path_div (base_path env) ''data/sales_data''"

definition isfile :: "sales_env \<Rightarrow> string \<Rightarrow> bool" where
  "isfile env path = (files env path \<noteq> None)"

definition sales_csv_path :: "sales_env \<Rightarrow> int \<Rightarrow> string \<Rightarrow> string" where
  "sales_csv_path env year month =
     path_div (sales_base_path env) (py_lower month @ ''_'' @ str_int year @ ''.csv'')"

definition get_sales :: "sales_env \<Rightarrow> int \<Rightarrow> string \<Rightarrow> json result" where
  "get_sales env year month =
     (let month = py_lower month;
          sales_csv_file = path_div (sales_base_path env) (month @ ''_'' @ str_int year @ ''.csv'')
      in case files env sales_csv_file of
           Some content \<Rightarrow> read_csv_records env content
         | None \<Rightarrow>
             Inl (FileNotFoundError
               (''Sales data for '' @ month @ '' '' @ str_int year @ '' not found at ''
                @ sales_csv_file
                @ ''. Month must be written, month must be numeric'')))"

subsection \<open>A world with one month of sales\<close>

definition march_records :: json where
  "march_records = JArray
     [JObject [(''id'', JInt 1), (''amount'', JInt 250)],
      JObject [(''id'', JInt 2), (''amount'', JInt 75)]]"

definition march_csv :: string where
  "march_csv = ''id,amount\<newline>1,250\<newline>2,75\<newline>''"

definition march_env :: sales_env where
  "march_env =
     \<lparr>base_path = ''/srv/mcp_servers'',
      files = map_of [(''/srv/mcp_servers/data/sales_data/march_2024.csv'', march_csv)],
      read_csv_records = (\<lambda>content. case map_of [(march_csv, march_records)] content of
                                         Some records \<Rightarrow> Inr records
                                       | None \<Rightarrow> Inl (ValueError ''not a table''))\<rparr>"

section \<open>The clients\<close>

subsection \<open>Calls to the outside, and their trace\<close>

text \<open>
  A client talks to an MCP server and to the LLM service (\<open>converse\<close>). Each such call
  is recorded, with its arguments, in the order the calls are made; \<open>converse\<close> is
  recorded with its keyword arguments as a dictionary. The world answers a call from
  the number of calls made before it and from the arguments, with a value or with an
  exception.
\<close>

datatype event =
    Connect
  | Disconnect
  | Ping
  | ListPrompts
  | ListTools
  | Print string
  | GetPrompt string "(string \<times> json) list"
  | Converse json
  | CallTool json json

type_synonym 'a io = "event list \<Rightarrow> 'a result \<times> event list"

definition return_io :: "'a \<Rightarrow> 'a io" where
  "return_io a = (\<lambda>t. (Inr a, t))"

definition lift_io :: "'a result \<Rightarrow> 'a io" where
  "lift_io r = (\<lambda>t. (r, t))"

definition bind_io :: "'a io \<Rightarrow> ('a \<Rightarrow> 'b io) \<Rightarrow> 'b io" where
  "bind_io m f = (\<lambda>t. case m t of (Inl e, t') \<Rightarrow> (Inl e, t') | (Inr a, t') \<Rightarrow> f a t')"

definition call_io :: "event \<Rightarrow> (nat \<Rightarrow> 'a result) \<Rightarrow> 'a io" where
  "call_io ev answer = (\<lambda>t. (answer (length t), t @ [ev]))"

definition print_io :: "string \<Rightarrow> unit io" where
  "print_io s = (\<lambda>t. (Inr (), t @ [Print s]))"

fun prints_io :: "string list \<Rightarrow> unit io" where
  "prints_io [] = return_io ()"
| "prints_io (s # ss) = bind_io (print_io s) (\<lambda>_. prints_io ss)"

text \<open>\<open>res['output']['message']['content'][0]['text']\<close>.\<close>

definition reply_text :: "json \<Rightarrow> json result" where
  "reply_text res =
     bind_exc (subscript res ''output'') (\<lambda>output.
     bind_exc (subscript output ''message'') (\<lambda>message.
     bind_exc (subscript message ''content'') (\<lambda>content.
     bind_exc (subscript0 content) (\<lambda>first.
     subscript first ''text''))))"

text \<open>
  \<open>s.replace(old, new)\<close>: every occurrence of \<open>old\<close>, found from the left and not
  overlapping the one before, gives way to \<open>new\<close>. The counter is the number of
  characters of the current occurrence still to be skipped.
\<close>

fun replace_from :: "string \<Rightarrow> string \<Rightarrow> nat \<Rightarrow> string \<Rightarrow> string" where
  "replace_from old new k [] = []"
| "replace_from old new (Suc k) (c # cs) = replace_from old new k cs"
| "replace_from old new 0 (c # cs) =
     (if starts_with old (c # cs) then new @ replace_from old new (length old - 1) cs
      else c # replace_from old new 0 cs)"

definition py_replace :: "string \<Rightarrow> string \<Rightarrow> string \<Rightarrow> string" where
  "py_replace old new s =
     (if old = [] then new @ concat (map (\<lambda>c. c # new) s) else replace_from old new 0 s)"

subsection \<open>The blog-post client (\<open>io_prompt_client_bedrock.py\<close>)\<close>

text \<open>
  Its world: the files that exist with their text, the prompt server (connecting,
  \<open>ping\<close>, the names \<open>list_prompts\<close> gives, and for \<open>get_prompt\<close> the text \<open>str\<close>
  prints for the rendered prompt), the LLM service, and \<open>json.loads\<close>, where \<open>None\<close>
  stands for a text that does not decode.
\<close>

record blog_env =
  code_files :: "string \<Rightarrow> string option"
  connect :: "nat \<Rightarrow> unit result"
  ping :: "nat \<Rightarrow> unit result"
  list_prompts :: "nat \<Rightarrow> string list result"
  get_prompt :: "nat \<Rightarrow> string \<Rightarrow> (string \<times> json) list \<Rightarrow> string result"
  converse :: "nat \<Rightarrow> json \<Rightarrow> json result"
  loads :: "string \<Rightarrow> json option"

definition PROMPT_MODEL_ID :: string where
  "PROMPT_MODEL_ID = ''us.deepseek.r1-v1:0''"

definition get_prompt_io :: "blog_env \<Rightarrow> string \<Rightarrow> (string \<times> json) list \<Rightarrow> string io" where
  "get_prompt_io env name arguments =
     call_io (GetPrompt name arguments) (\<lambda>n. get_prompt env n name arguments)"

text \<open>The single user message every step sends, around the rendered prompt.\<close>

definition prompt_messages :: "string \<Rightarrow> json" where
  "prompt_messages prompt =
     JArray [JObject [(''role'', JString ''user''),
                      (''content'', JArray [JObject [(''text'',
                         JString (''\<newline>                '' @ prompt @ ''\<newline>            ''))]])]]"

definition converse_prompt :: "blog_env \<Rightarrow> string \<Rightarrow> json io" where
  "converse_prompt env prompt =
     (let request = JObject [(''modelId'', JString PROMPT_MODEL_ID),
                             (''messages'', prompt_messages prompt)]
      in call_io (Converse request) (\<lambda>n. converse env n request))"

text \<open>
  The \<open>try\<close> block of the keyword step: both \<open>replace\<close> calls and \<open>json.loads\<close>; any
  exception in it, also the missing \<open>replace\<close> of a reply that is no string, becomes
  the \<open>ValueError\<close>.
\<close>

definition load_keywords :: "blog_env \<Rightarrow> json \<Rightarrow> json result" where
  "load_keywords env keywords_json =
     (case keywords_json of
        JString s \<Rightarrow>
          (case loads env (py_replace [CHR 0x60, CHR 0x60, CHR 0x60] []
                            (py_replace ([CHR 0x60, CHR 0x60, CHR 0x60] @ ''json'') [] s)) of
             Some keywords \<Rightarrow> Inr keywords
           | None \<Rightarrow> Inl (ValueError ''Error Loading Keyword Response''))
      | _ \<Rightarrow> Inl (ValueError ''Error Loading Keyword Response''))"

definition run_keyword_prompt :: "blog_env \<Rightarrow> string \<Rightarrow> json io" where
  "run_keyword_prompt env code =
     bind_io (get_prompt_io env ''Get Keywords From Code'' [(''code'', JString code)])
       (\<lambda>keywords_prompt.
     bind_io (converse_prompt env keywords_prompt) (\<lambda>keywords_res.
     bind_io (lift_io (reply_text keywords_res)) (\<lambda>keywords_json.
     lift_io (load_keywords env keywords_json))))"

definition run_intro_prompt :: "blog_env \<Rightarrow> json \<Rightarrow> json io" where
  "run_intro_prompt env keywords =
     bind_io (get_prompt_io env ''Get Intro From Keywords'' [(''keywords'', keywords)])
       (\<lambda>keywords_prompt.
     bind_io (converse_prompt env keywords_prompt) (\<lambda>keywords_res.
     lift_io (reply_text keywords_res)))"

definition run_main_prompt :: "blog_env \<Rightarrow> json \<Rightarrow> string \<Rightarrow> json io" where
  "run_main_prompt env keywords code =
     bind_io (get_prompt_io env ''Get Main Section From Code''
                [(''keywords'', keywords), (''code'', JString code)]) (\<lambda>main_prompt.
     bind_io (converse_prompt env main_prompt) (\<lambda>main_res.
     lift_io (reply_text main_res)))"

definition run_aggregate_prompt :: "blog_env \<Rightarrow> json \<Rightarrow> json \<Rightarrow> json \<Rightarrow> json io" where
  "run_aggregate_prompt env intro main outlook =
     bind_io (get_prompt_io env ''Aggregate Blog Sections''
                [(''intro'', intro), (''main'', main), (''outlook'', outlook)]) (\<lambda>main_prompt.
     bind_io (converse_prompt env main_prompt) (\<lambda>main_res.
     lift_io (reply_text main_res)))"

definition outlook_text :: string where
  "outlook_text = ''\<newline>            If you want to learn more about MCP, or have questions on individual blog posts, visit www.evo-byte.com\<newline>            ''"

text \<open>\<open>async with self.client\<close>: once connected, the connection is closed on every way out.\<close>

definition with_client :: "blog_env \<Rightarrow> 'a io \<Rightarrow> 'a io" where
  "with_client env body =
     bind_io (call_io Connect (connect env)) (\<lambda>_ t.
       case body t of (r, t') \<Rightarrow> (r, t' @ [Disconnect]))"

definition fixed_keywords :: json where
  "fixed_keywords = JArray [JString ''MCP'', JString ''FastMCP'', JString ''Prompts'']"

definition run :: "blog_env \<Rightarrow> string \<Rightarrow> json io" where
  "run env code_file =
     (case code_files env code_file of
        None \<Rightarrow> lift_io (Inl AssertionError)
      | Some code \<Rightarrow>
          with_client env
            (bind_io (call_io Ping (ping env)) (\<lambda>_.
             bind_io (call_io ListPrompts (list_prompts env)) (\<lambda>prompts.
             bind_io (prints_io ([''Available Prompts:'',
                                  ''Total Prompts: '' @ str_nat (length prompts)]
                                 @ map (\<lambda>name. ''- '' @ name) prompts)) (\<lambda>_.
             bind_io (run_keyword_prompt env code) (\<lambda>keywords.
             bind_io (run_intro_prompt env fixed_keywords) (\<lambda>intro.
             bind_io (run_main_prompt env fixed_keywords code) (\<lambda>main_part.
             bind_io (run_aggregate_prompt env intro main_part (JString outlook_text))
               (\<lambda>blogpost.
             return_io blogpost)))))))))"

subsection \<open>Observing a run of the blog-post client\<close>

text \<open>
  The prompt requests in a trace, in order; a computation that only adds events of a
  given kind to the trace.
\<close>

definition prompt_requests :: "event list \<Rightarrow> (string \<times> (string \<times> json) list) list" where
  "prompt_requests t = concat (map (\<lambda>e. case e of GetPrompt name args \<Rightarrow> [(name, args)] | _ \<Rightarrow> []) t)"

definition emits :: "(event \<Rightarrow> bool) \<Rightarrow> 'a io \<Rightarrow> bool" where
  "emits P m = (\<forall>t. \<exists>evs. snd (m t) = t @ evs \<and> list_all P evs)"

text \<open>The events a run on the code text may emit.\<close>

definition run_event :: "string \<Rightarrow> event \<Rightarrow> bool" where
  "run_event code e =
     (case e of
        GetPrompt name args \<Rightarrow>
          (name = ''Get Keywords From Code'' \<and> args = [(''code'', JString code)])
          \<or> (name = ''Get Intro From Keywords'' \<and> args = [(''keywords'', fixed_keywords)])
          \<or> (name = ''Get Main Section From Code''
               \<and> args = [(''keywords'', fixed_keywords), (''code'', JString code)])
          \<or> (name = ''Aggregate Blog Sections'' \<and> map fst args = [''intro'', ''main'', ''outlook''])
      | CallTool name args \<Rightarrow> False
      | ListTools \<Rightarrow> False
      | _ \<Rightarrow> True)"

subsection \<open>A world for the blog-post client\<close>

text \<open>
  The LLM answers the keyword prompt with a fenced JSON document and every other
  prompt with a sentence; the prompt server renders a prompt as its name.
\<close>

definition llm_reply :: "json \<Rightarrow> json" where
  "llm_reply text =
     JObject [(''output'', JObject [(''message'',
       JObject [(''role'', JString ''assistant''), (''content'', JArray [JObject [(''text'', text)]])])])]"

definition fenced_reply :: string where
  \<open>fenced_reply = [CHR 0x60, CHR 0x60, CHR 0x60] @ ''json\<newline>{"keywords": ["A","B"]}\<newline>''
     @ [CHR 0x60, CHR 0x60, CHR 0x60]\<close>

definition keywords_document :: json where
  "keywords_document = JObject [(''keywords'', JArray [JString ''A'', JString ''B''])]"

definition keyword_request :: json where
  "keyword_request = JObject [(''modelId'', JString PROMPT_MODEL_ID),
                              (''messages'', prompt_messages ''Get Keywords From Code'')]"

definition blog_world :: blog_env where
  \<open>blog_world =
     \<lparr>code_files = map_of [(''client.py'', ''import fastmcp'')],
      connect = (\<lambda>n. Inr ()),
      ping = (\<lambda>n. Inr ()),
      list_prompts = (\<lambda>n. Inr [''Greet MCP Server'', ''Get Keywords From Code'']),
      get_prompt = (\<lambda>n name arguments. Inr name),
      converse = (\<lambda>n request. Inr (llm_reply (JString
                    (if request = keyword_request then fenced_reply else ''Some text.'')))),
      loads = map_of [(''\<newline>{"keywords": ["A","B"]}\<newline>'', keywords_document)]\<rparr>\<close>

subsection \<open>The weather tool clients (\<open>io_tools_client_bedrock.py\<close>, \<open>oauth_github_tools_client_bedrock.py\<close>)\<close>

text \<open>
  Both clients run the same \<open>process_query\<close>; they differ in the connection and in the
  indentation of the system prompt. A tool the server lists has a name, a description
  and an input schema.
\<close>

datatype tool = Tool json json json

record chat_env =
  list_tools :: "nat \<Rightarrow> tool list result"
  call_tool :: "nat \<Rightarrow> json \<Rightarrow> json \<Rightarrow> mcp_content list result"
  converse_tools :: "nat \<Rightarrow> json \<Rightarrow> json result"

definition TOOLS_MODEL_ID :: string where
  "TOOLS_MODEL_ID = ''amazon.nova-lite-v1:0''"

definition system_text_stdio :: string where
  \<open>system_text_stdio = ''\<newline>                           You are an app that returns information on the weather in the US. \<newline>                           If queries are not related to wheather return the message "I am just a simple weather app :( ).\<newline>                           When using tools, infer required arguments from user inputs and do not ask user again".\<newline>                           ''\<close>

definition system_text_oauth :: string where
  \<open>system_text_oauth = ''\<newline>                        You are an app that returns information on the weather in the US. \<newline>                        If queries are not related to wheather return the message "I am just a simple weather app :( ).\<newline>                        When using tools, infer required arguments from user inputs and do not ask user again".\<newline>                        ''\<close>

definition tool_spec :: "tool \<Rightarrow> json" where
  "tool_spec t =
     (case t of Tool name description inputSchema \<Rightarrow>
        JObject [(''toolSpec'',
          JObject [(''name'', name), (''description'', description),
                   (''inputSchema'', JObject [(''json'', inputSchema)])])])"

definition tool_config :: "tool list \<Rightarrow> json" where
  "tool_config tools = JObject [(''tools'', JArray (map tool_spec tools))]"

text \<open>
  The message history. The assistant message that a tool use appends holds the list
  \<open>assistant_message_content\<close> itself, not a copy: whenever the history is sent, that
  message shows the list as it is then.
\<close>

datatype message_ref = Message json | AssistantContent

record loop_state =
  final_text :: "json list"
  assistant_message_content :: "json list"
  messages :: "message_ref list"

definition sent_messages :: "json list \<Rightarrow> message_ref list \<Rightarrow> json" where
  "sent_messages content ms =
     JArray (map (\<lambda>m. case m of
                        Message j \<Rightarrow> j
                      | AssistantContent \<Rightarrow>
                          JObject [(''role'', JString ''assistant''), (''content'', JArray content)])
                 ms)"

definition converse_request :: "string \<Rightarrow> json \<Rightarrow> json \<Rightarrow> json" where
  "converse_request system_text config msgs =
     JObject [(''modelId'', JString TOOLS_MODEL_ID), (''messages'', msgs),
              (''system'', JArray [JObject [(''text'', JString system_text)]]),
              (''toolConfig'', config)]"

definition converse_io :: "chat_env \<Rightarrow> json \<Rightarrow> json io" where
  "converse_io env request = call_io (Converse request) (\<lambda>n. converse_tools env n request)"

text \<open>The \<open>text\<close> items of a tool result, each as \<open>{'text': res.text}\<close>.\<close>

fun tool_result_content :: "mcp_content list \<Rightarrow> json list" where
  "tool_result_content [] = []"
| "tool_result_content (TextContent s # rs) = JObject [(''text'', JString s)] # tool_result_content rs"
| "tool_result_content (r # rs) = tool_result_content rs"

definition tool_result_message :: "json \<Rightarrow> json list \<Rightarrow> json" where
  "tool_result_message tool_use_id content =
     JObject [(''role'', JString ''user''),
              (''content'', JArray [JObject [(''toolResult'',
                 JObject [(''toolUseId'', tool_use_id), (''content'', JArray content)])]])]"

text \<open>\<open>if 'text' in content: ...\<close>\<close>

definition handle_text :: "json \<Rightarrow> loop_state \<Rightarrow> loop_state result" where
  "handle_text content st =
     bind_exc (contains_str ''text'' content) (\<lambda>has_text.
     if has_text then
       bind_exc (subscript content ''text'') (\<lambda>text.
       Inr (st\<lparr>final_text := final_text st @ [text],
               assistant_message_content := assistant_message_content st @ [content]\<rparr>))
     else Inr st)"

text \<open>\<open>if 'toolUse' in content: ...\<close>\<close>

definition handle_tool_use ::
    "chat_env \<Rightarrow> string \<Rightarrow> json \<Rightarrow> json \<Rightarrow> loop_state \<Rightarrow> loop_state io" where
  "handle_tool_use env system_text config content st =
     bind_io (lift_io (contains_str ''toolUse'' content)) (\<lambda>has_tool_use.
     if \<not> has_tool_use then return_io st
     else
       bind_io (lift_io (bind_exc (subscript content ''toolUse'') (\<lambda>u. subscript u ''name'')))
         (\<lambda>tool_name.
       bind_io (lift_io (bind_exc (subscript content ''toolUse'') (\<lambda>u. subscript u ''input'')))
         (\<lambda>tool_args.
       bind_io (lift_io (bind_exc (subscript content ''toolUse'') (\<lambda>u. subscript u ''toolUseId'')))
         (\<lambda>tool_use_id.
       bind_io (call_io (CallTool tool_name tool_args) (\<lambda>n. call_tool env n tool_name tool_args))
         (\<lambda>tool_result.
       let st1 = st\<lparr>final_text := final_text st
                      @ [JString (''[Calling tool '' @ py_str tool_name @ '' with args ''
                                  @ py_str tool_args @ '']'')],
                    assistant_message_content := assistant_message_content st @ [content],
                    messages := messages st
                      @ [AssistantContent,
                         Message (tool_result_message tool_use_id
                                    (tool_result_content tool_result))]\<rparr>
       in
       bind_io (converse_io env (converse_request system_text config
                  (sent_messages (assistant_message_content st1) (messages st1)))) (\<lambda>response.
       bind_io (lift_io (reply_text response)) (\<lambda>text.
       return_io (st1\<lparr>final_text := final_text st1 @ [text]\<rparr>))))))))"

text \<open>The loop over the content blocks of the first response.\<close>

fun process_contents ::
    "chat_env \<Rightarrow> string \<Rightarrow> json \<Rightarrow> json list \<Rightarrow> loop_state \<Rightarrow> loop_state io" where
  "process_contents env system_text config [] st = return_io st"
| "process_contents env system_text config (content # rest) st =
     bind_io (lift_io (handle_text content st)) (\<lambda>st1.
     bind_io (handle_tool_use env system_text config content st1) (\<lambda>st2.
     process_contents env system_text config rest st2))"

text \<open>\<open>"\n".join(final_text)\<close>: every item has to be a string.\<close>

fun strings_of :: "json list \<Rightarrow> string list result" where
  "strings_of [] = Inr []"
| "strings_of (JString s # vs) = bind_exc (strings_of vs) (\<lambda>ss. Inr (s # ss))"
| "strings_of (v # vs) = Inl TypeError"

definition join_lines :: "json list \<Rightarrow> string result" where
  "join_lines vs = bind_exc (strings_of vs) (\<lambda>ss. Inr (str_join ''\<newline>'' ss))"

definition user_message :: "string \<Rightarrow> json" where
  "user_message query =
     JObject [(''role'', JString ''user''), (''content'', JArray [JObject [(''text'', JString query)]])]"

text \<open>What \<open>for content in response['output']['message']['content']\<close> runs over.\<close>

definition response_contents :: "json \<Rightarrow> json list result" where
  "response_contents response =
     bind_exc (subscript response ''output'') (\<lambda>output.
     bind_exc (subscript output ''message'') (\<lambda>message.
     bind_exc (subscript message ''content'') py_iter))"

definition process_query :: "chat_env \<Rightarrow> string \<Rightarrow> string \<Rightarrow> string io" where
  "process_query env system_text query =
     bind_io (call_io ListTools (list_tools env)) (\<lambda>tools.
     bind_io (converse_io env (converse_request system_text (tool_config tools)
                (sent_messages [] [Message (user_message query)]))) (\<lambda>response.
     bind_io (lift_io (response_contents response)) (\<lambda>contents.
     bind_io (process_contents env system_text (tool_config tools) contents
                \<lparr>final_text = [], assistant_message_content = [],
                 messages = [Message (user_message query)]\<rparr>) (\<lambda>st.
     lift_io (join_lines (final_text st))))))"

text \<open>\<open>MCPClient.process_query\<close> of the local client and \<open>process_query\<close> of the OAuth client.\<close>

definition process_query_stdio :: "chat_env \<Rightarrow> string \<Rightarrow> string io" where
  "process_query_stdio env query = process_query env system_text_stdio query"

definition process_query_oauth :: "chat_env \<Rightarrow> string \<Rightarrow> string io" where
  "process_query_oauth env query = process_query env system_text_oauth query"

subsection \<open>What the specification says of a query with one tool use\<close>

text \<open>
  A block holds a tool use when it is a dictionary with the key \<open>toolUse\<close>; its text,
  if it has one. A plain block holds no tool use, and its text, if any, is a string.
\<close>

fun is_tool_use :: "json \<Rightarrow> bool" where
  "is_tool_use (JObject kvs) = (map_of kvs ''toolUse'' \<noteq> None)"
| "is_tool_use _ = False"

fun has_text :: "json \<Rightarrow> bool" where
  "has_text (JObject kvs) = (map_of kvs ''text'' \<noteq> None)"
| "has_text _ = False"

fun text_of :: "json \<Rightarrow> string list" where
  "text_of (JObject kvs) = (case map_of kvs ''text'' of Some (JString s) \<Rightarrow> [s] | _ \<Rightarrow> [])"
| "text_of _ = []"

definition texts_of :: "json list \<Rightarrow> string list" where
  "texts_of blocks = concat (map text_of blocks)"

fun text_is_string :: "json \<Rightarrow> bool" where
  "text_is_string (JObject kvs) =
     (case map_of kvs ''text'' of None \<Rightarrow> True | Some (JString s) \<Rightarrow> True | Some _ \<Rightarrow> False)"
| "text_is_string _ = False"

definition plain_block :: "json \<Rightarrow> bool" where
  "plain_block b = (\<not> is_tool_use b \<and> text_is_string b)"

text \<open>The name, the arguments and the call id of a tool-use block.\<close>

fun tool_use_parts :: "json \<Rightarrow> (json \<times> json \<times> json) option" where
  "tool_use_parts (JObject kvs) =
     (case map_of kvs ''toolUse'' of
        Some (JObject u) \<Rightarrow>
          (case (map_of u ''name'', map_of u ''input'', map_of u ''toolUseId'') of
             (Some name, Some args, Some use_id) \<Rightarrow> Some (name, args, use_id)
           | _ \<Rightarrow> None)
      | _ \<Rightarrow> None)"
| "tool_use_parts _ = None"

definition diagnostic :: "json \<Rightarrow> json \<Rightarrow> string" where
  "diagnostic name args = ''[Calling tool '' @ py_str name @ '' with args '' @ py_str args @ '']''"

text \<open>
  The returned text as the claim words it: the texts of the first response, the
  diagnostic line, the first text of the follow-up reply, joined by newlines.
\<close>

definition claimed_text :: "json list \<Rightarrow> json \<Rightarrow> json \<Rightarrow> string \<Rightarrow> string" where
  "claimed_text blocks name args reply =
     str_join ''\<newline>'' (texts_of blocks @ [diagnostic name args, reply])"

text \<open>The two requests to the LLM: the first one, and the one that follows the tool call.\<close>

definition first_request :: "string \<Rightarrow> tool list \<Rightarrow> string \<Rightarrow> json" where
  "first_request system_text tools query =
     converse_request system_text (tool_config tools) (JArray [user_message query])"

definition followup_request ::
    "string \<Rightarrow> tool list \<Rightarrow> string \<Rightarrow> json list \<Rightarrow> json \<Rightarrow> mcp_content list \<Rightarrow> json" where
  "followup_request system_text tools query assistant_content use_id result =
     converse_request system_text (tool_config tools)
       (JArray [user_message query,
                JObject [(''role'', JString ''assistant''), (''content'', JArray assistant_content)],
                tool_result_message use_id (tool_result_content result)])"

subsection \<open>A world for the tool clients\<close>

text \<open>
  The LLM answers the first request with the given blocks and the next one with a
  sentence; the server has one tool, whose result is one text.
\<close>

definition tool_use_block :: json where
  "tool_use_block = JObject [(''toolUse'', JObject [(''toolUseId'', JString ''tooluse_1''),
      (''name'', JString ''get_alerts''), (''input'', JObject [(''state'', JString ''CA'')])])]"

definition llm_content :: "json list \<Rightarrow> json" where
  "llm_content blocks = JObject [(''output'', JObject [(''message'',
       JObject [(''role'', JString ''assistant''), (''content'', JArray blocks)])])]"

definition alerts_tool :: tool where
  "alerts_tool = Tool (JString ''get_alerts'') (JString ''Get weather alerts for a US state.'')
     (JObject [(''type'', JString ''object'')])"

definition chat_world :: "json list \<Rightarrow> chat_env" where
  "chat_world first =
    \<lparr>list_tools = (\<lambda>n. Inr [alerts_tool]),
     call_tool = (\<lambda>n name args. Inr [TextContent ''No active alerts for this state.'']),
     converse_tools = (\<lambda>n request. Inr (llm_content
        (if n = 1 then first
         else [JObject [(''text'', JString ''There are no alerts in California.'')]])))\<rparr>"

definition trailing_text_blocks :: "json list" where
  "trailing_text_blocks = [tool_use_block, JObject [(''text'', JString ''One moment.'')]]"

definition leading_text_blocks :: "json list" where
  "leading_text_blocks = [JObject [(''text'', JString ''Let me look.'')], tool_use_block]"

definition alerts_diagnostic :: string where
  "alerts_diagnostic = ''[Calling tool get_alerts with args {'state': 'CA'}]''"

definition alerts_followup :: "json list \<Rightarrow> json" where
  "alerts_followup assistant_content =
     followup_request system_text_stdio [alerts_tool] ''Any alerts in CA?'' assistant_content
       (JString ''tooluse_1'') [TextContent ''No active alerts for this state.'']"

section \<open>Properties\<close>

subsection \<open>Auxiliary facts\<close>

lemma bind_exc_simps [simp]:
  "bind_exc (Inl e) f = Inl e"
  "bind_exc (Inr a) f = f a"
  by (simp_all add: bind_exc_def)

lemma map_exc_all:
  "(\<And>x. x \<in> set xs \<Longrightarrow> f x = Inr (g x)) \<Longrightarrow> map_exc f xs = Inr (map g xs)"
  by (induction xs) simp_all

lemma py_get_str [simp]:
  "bind_exc (py_get (JObject p) k (JString d)) h = h (case map_of p k of None \<Rightarrow> JString d | Some v \<Rightarrow> v)"
  by simp

lemma py_str_field:
  "py_str (case map_of p k of None \<Rightarrow> JString d | Some v \<Rightarrow> v) = field_or p k d"
  by (simp add: field_or_def py_str_def split: option.splits)

lemma format_alert_block:
  assumes "has_properties f"
  shows "format_alert f = Inr (alert_block f)"
proof -
  from assms obtain fk where f: "f = JObject fk"
    by (cases f) (simp_all add: has_properties_def)
  with assms obtain v where v: "map_of fk ''properties'' = Some v"
    by (cases "map_of fk ''properties''") (simp_all add: has_properties_def)
  with assms f obtain p where "v = JObject p"
    by (cases v) (simp_all add: has_properties_def)
  with v have p: "map_of fk ''properties'' = Some (JObject p)" by simp
  have po: "properties_of f = p" by (simp add: properties_of_def f p)
  show ?thesis
    unfolding format_alert_def alert_block_def po
    by (simp add: f p py_str_field)
qed

lemma make_nws_request_scripted:
  "map_of outcomes n = Some (HttpResponse 200 b) \<Longrightarrow> map_of decoded b = Some d \<Longrightarrow>
   make_nws_request (scripted_env outcomes decoded) n (JString u) = Inr d"
  by (simp add: make_nws_request_def scripted_env_def client_get_def raise_for_status_def
      response_json_def except_return_None_def)

lemma get_forecast_after_points:
  assumes "make_nws_request env 0 (JString (points_url latitude longitude)) = Inr points_data"
  shows "get_forecast env latitude longitude =
     (if \<not> truthy points_data then Inr ''Unable to fetch forecast data for this location.''
     else bind_exc (subscript points_data ''properties'') (\<lambda>points_properties.
     bind_exc (subscript points_properties ''forecast'') (\<lambda>forecast_url.
     bind_exc (make_nws_request env 1 forecast_url) (\<lambda>forecast_data.
     if \<not> truthy forecast_data then Inr ''Unable to fetch detailed forecast.''
     else bind_exc (subscript forecast_data ''properties'') (\<lambda>forecast_properties.
     bind_exc (subscript forecast_properties ''periods'') (\<lambda>periods.
     bind_exc (slice5 periods) (\<lambda>first5.
     bind_exc (py_iter first5) (\<lambda>ps.
     bind_exc (map_exc format_period ps) (\<lambda>forecasts.
     Inr (str_join ''\<newline>---\<newline>'' forecasts))))))))))"
  using assms unfolding get_forecast_def points_url_def by simp

lemma get_alerts_after_fetch:
  assumes "make_nws_request env 0 (JString (alerts_url state)) = Inr data"
  shows "get_alerts env state =
     (if \<not> truthy data then Inr ''Unable to fetch alerts or no alerts found.''
      else bind_exc (contains_str ''features'' data) (\<lambda>has_features.
      if \<not> has_features then Inr ''Unable to fetch alerts or no alerts found.''
      else bind_exc (subscript data ''features'') (\<lambda>features.
      if \<not> truthy features then Inr ''No active alerts for this state.''
      else bind_exc (py_iter features) (\<lambda>fs.
      bind_exc (map_exc format_alert fs) (\<lambda>alerts.
      Inr (str_join ''\<newline>---\<newline>'' alerts))))))"
  using assms unfolding get_alerts_def alerts_url_def by simp

lemma except_return_None_Inr: "\<exists>v. except_return_None b = Inr v"
  by (cases b) (simp_all add: except_return_None_def)

lemma make_nws_request_returns: "\<exists>data. make_nws_request env n url = Inr data"
  unfolding make_nws_request_def by (rule except_return_None_Inr)

lemma get_spaceflight_news_date_returns: "\<exists>news. get_spaceflight_news_date env d = Inr news"
  unfolding get_spaceflight_news_date_def except_return_no_list_def
  by (simp split: sum.splits)

lemma request_fails_body:
  assumes "request_fails env n u"
  shows "\<exists>e. bind_exc (client_get env n (JString u)) (\<lambda>response.
        bind_exc (raise_for_status response) (\<lambda>response. bind_exc (response_json env response) h)) = Inl e"
  using assms
  by (cases "http_get env n u")
     (auto simp: request_fails_def client_get_def raise_for_status_def response_json_def)

lemma make_nws_request_fails:
  assumes "request_fails env n u"
  shows "make_nws_request env n (JString u) = Inr JNull"
proof -
  from request_fails_body [OF assms, of Inr] obtain e where
    "bind_exc (client_get env n (JString u)) (\<lambda>response.
        bind_exc (raise_for_status response) (\<lambda>response. bind_exc (response_json env response) Inr)) = Inl e"
    by blast
  moreover have "\<And>r. bind_exc (response_json env r) Inr = response_json env r"
    by (simp add: bind_exc_def split: sum.splits)
  ultimately show ?thesis
    by (simp add: make_nws_request_def except_return_None_def)
qed

lemma get_spaceflight_news_date_fails:
  assumes "request_fails env 0 (news_endpoint d)"
  shows "get_spaceflight_news_date env d = Inr None"
proof -
  from request_fails_body [OF assms] obtain e where
    "bind_exc (client_get env 0 (JString (news_endpoint d))) (\<lambda>response.
        bind_exc (raise_for_status response) (\<lambda>response. bind_exc (response_json env response)
         (\<lambda>doc.
        bind_exc (subscript doc ''results'') (\<lambda>results.
        bind_exc (py_iter results) (\<lambda>rs.
        map_exc (\<lambda>res.
          bind_exc (subscript res ''title'') (\<lambda>title.
          bind_exc (subscript res ''summary'') (\<lambda>summary.
          Inr (title, summary)))) rs))))) = Inl e"
    by blast
  then show ?thesis
    by (simp add: get_spaceflight_news_date_def except_return_no_list_def)
qed

lemma timeout_fails: "request_fails timeout_env 0 u"
  by (simp add: request_fails_def timeout_env_def scripted_env_def)

lemma unavailable_fails: "request_fails forecast_unavailable_env 1 u"
  by (simp add: request_fails_def forecast_unavailable_env_def scripted_env_def)

lemma get_spaceflight_news_date_scripted:
  "map_of outcomes 0 = Some (HttpResponse 200 b) \<Longrightarrow> map_of decoded b = Some doc \<Longrightarrow>
   get_spaceflight_news_date (scripted_env outcomes decoded) d =
     except_return_no_list
       (bind_exc (subscript doc ''results'') (\<lambda>results.
        bind_exc (py_iter results) (\<lambda>rs.
        map_exc (\<lambda>res.
          bind_exc (subscript res ''title'') (\<lambda>title.
          bind_exc (subscript res ''summary'') (\<lambda>summary.
          Inr (title, summary)))) rs)))"
  by (simp add: get_spaceflight_news_date_def scripted_env_def client_get_def raise_for_status_def
      response_json_def)

lemma one_news_fetch:
  "get_spaceflight_news_date (web one_news_env) (today one_news_env) = Inr (Some one_news)"
  by (simp add: one_news_env_def get_spaceflight_news_date_scripted one_news_doc_def
      except_return_no_list_def one_news_def)

lemma no_news_fetch:
  "get_spaceflight_news_date (web no_news_env) (today no_news_env) = Inr (Some [])"
  by (simp add: no_news_env_def get_spaceflight_news_date_scripted no_news_doc_def
      except_return_no_list_def)

lemma subscript_bind:
  "bind_exc (subscript (JObject kvs) k) h =
     (case map_of kvs k of None \<Rightarrow> Inl (KeyError (JString k)) | Some v \<Rightarrow> h v)"
  by (simp split: option.splits)

lemma format_period_object:
  "format_period (JObject kvs) =
     (case map_of kvs ''name'' of None \<Rightarrow> Inl (KeyError (JString ''name'')) | Some name \<Rightarrow>
      case map_of kvs ''temperature'' of None \<Rightarrow> Inl (KeyError (JString ''temperature'')) | Some temperature \<Rightarrow>
      case map_of kvs ''temperatureUnit'' of None \<Rightarrow> Inl (KeyError (JString ''temperatureUnit'')) | Some unit \<Rightarrow>
      case map_of kvs ''windSpeed'' of None \<Rightarrow> Inl (KeyError (JString ''windSpeed'')) | Some windSpeed \<Rightarrow>
      case map_of kvs ''windDirection'' of None \<Rightarrow> Inl (KeyError (JString ''windDirection'')) | Some windDirection \<Rightarrow>
      case map_of kvs ''detailedForecast'' of None \<Rightarrow> Inl (KeyError (JString ''detailedForecast'')) | Some detailedForecast \<Rightarrow>
      Inr (period_block [CHR 0xC2] (JObject kvs)))"
  unfolding format_period_def subscript_bind
  by (simp add: period_block_def degree_symbol_def field_of_def split: option.splits)

lemma format_period_block:
  assumes "has_period_fields p"
  shows "format_period p = Inr (period_block [CHR 0xC2] p)"
proof -
  from assms obtain kvs where p: "p = JObject kvs"
    by (cases p) (simp_all add: has_period_fields_def)
  with assms show ?thesis
    by (auto simp: format_period_object has_period_fields_def period_fields_def)
qed

lemma format_period_missing:
  assumes "is_object p" and "\<not> has_period_fields p"
  shows "\<exists>k \<in> set period_fields. format_period p = Inl (KeyError (JString k))"
proof -
  from assms obtain kvs where p: "p = JObject kvs"
    by (cases p) (simp_all add: is_object_def)
  with assms(2) show ?thesis
    by (auto simp: format_period_object has_period_fields_def period_fields_def split: option.splits)
qed

lemma map_exc_first_failure:
  assumes "\<And>x. x \<in> set xs \<Longrightarrow> (\<exists>v. f x = Inr v) \<or> (\<exists>e. P e \<and> f x = Inl e)"
    and "\<exists>x \<in> set xs. \<exists>e. f x = Inl e"
  shows "\<exists>e. P e \<and> map_exc f xs = Inl e"
  using assms
proof (induction xs)
  case Nil
  then show ?case by simp
next
  case (Cons x xs)
  show ?case
  proof (cases "f x")
    case (Inl e)
    with Cons.prems(1) [of x] show ?thesis by auto
  next
    case (Inr v)
    with Cons.prems(2) have "\<exists>y \<in> set xs. \<exists>e. f y = Inl e" by auto
    with Cons.IH Cons.prems(1) obtain e where "P e" "map_exc f xs = Inl e" by auto
    with Inr show ?thesis by simp
  qed
qed


lemma forecast_env_requests:
  "make_nws_request (forecast_env points forecast) 0 (JString u) = Inr points"
  "make_nws_request (forecast_env points forecast) 1 (JString u) = Inr forecast"
  "make_nws_request (forecast_env points forecast) (Suc 0) (JString u) = Inr forecast"
  by (simp_all add: forecast_env_def make_nws_request_scripted)


subsection \<open>Auxiliary facts on the clients\<close>

lemma emits_return: "emits P (return_io a)"
  by (simp add: emits_def return_io_def)

lemma emits_lift: "emits P (lift_io r)"
  by (simp add: emits_def lift_io_def)

lemma emits_call: "P ev \<Longrightarrow> emits P (call_io ev answer)"
  by (simp add: emits_def call_io_def)

lemma emits_print: "P (Print s) \<Longrightarrow> emits P (print_io s)"
  by (simp add: emits_def print_io_def)

lemma emits_bind:
  assumes "emits P m" and "\<And>a. emits P (f a)"
  shows "emits P (bind_io m f)"
  unfolding emits_def
proof
  fix t
  from assms(1) obtain evs where m: "snd (m t) = t @ evs" "list_all P evs"
    unfolding emits_def by blast
  show "\<exists>evs. snd (bind_io m f t) = t @ evs \<and> list_all P evs"
  proof (cases "m t")
    case (Pair r t')
    with m have t': "t' = t @ evs" by simp
    show ?thesis
    proof (cases r)
      case (Inl e)
      with Pair t' m show ?thesis by (simp add: bind_io_def)
    next
      case (Inr a)
      from assms(2) [of a] obtain evs' where "snd (f a t') = t' @ evs'" "list_all P evs'"
        unfolding emits_def by blast
      with Pair Inr t' m show ?thesis by (simp add: bind_io_def)
    qed
  qed
qed

lemma emits_prints: "(\<And>s. P (Print s)) \<Longrightarrow> emits P (prints_io ss)"
  by (induction ss) (simp_all add: emits_return emits_bind emits_print)

lemma emits_with_client:
  assumes "P Connect" and "P Disconnect" and "emits P body"
  shows "emits P (with_client env body)"
  unfolding with_client_def
proof (rule emits_bind [OF emits_call [of P Connect, OF assms(1)]])
  fix a :: unit
  show "emits P (\<lambda>t. case body t of (r, t') \<Rightarrow> (r, t' @ [Disconnect]))"
    unfolding emits_def
  proof
    fix t
    from assms(3) obtain evs where "snd (body t) = t @ evs" "list_all P evs"
      unfolding emits_def by blast
    then show "\<exists>evs. snd (case body t of (r, t') \<Rightarrow> (r, t' @ [Disconnect])) = t @ evs \<and> list_all P evs"
      using assms(2) by (cases "body t") (auto intro: exI [of _ "evs @ [Disconnect]"])
  qed
qed

lemma emits_converse_prompt: "emits (run_event code) (converse_prompt env p)"
  by (simp add: converse_prompt_def Let_def emits_call run_event_def)

lemma emits_step:
  assumes "run_event code (GetPrompt name args)"
  shows "emits (run_event code)
     (bind_io (get_prompt_io env name args) (\<lambda>p.
      bind_io (converse_prompt env p) (\<lambda>res. lift_io (h res))))"
  by (intro emits_bind emits_lift emits_converse_prompt)
     (simp add: get_prompt_io_def emits_call assms)

lemma emits_run:
  assumes "code_files env code_file = Some code"
  shows "emits (run_event code) (run env code_file)"
proof -
  have k: "emits (run_event code) (run_keyword_prompt env code)"
    unfolding run_keyword_prompt_def
    by (intro emits_bind emits_lift emits_converse_prompt)
       (simp add: get_prompt_io_def emits_call run_event_def)
  have i: "emits (run_event code) (run_intro_prompt env fixed_keywords)"
    unfolding run_intro_prompt_def by (rule emits_step) (simp add: run_event_def)
  have m: "emits (run_event code) (run_main_prompt env fixed_keywords code)"
    unfolding run_main_prompt_def by (rule emits_step) (simp add: run_event_def)
  have a: "emits (run_event code) (run_aggregate_prompt env x y z)" for x y z
    unfolding run_aggregate_prompt_def by (rule emits_step) (simp add: run_event_def)
  show ?thesis
    unfolding run_def assms option.case
    by (intro emits_with_client emits_bind emits_return emits_prints emits_call k i m a)
       (simp_all add: run_event_def)
qed

lemma bind_io_Inr:
  assumes "bind_io m f t = (Inr b, t'')"
  obtains a t' where "m t = (Inr a, t')" and "f a t' = (Inr b, t'')"
  using assms by (auto simp: bind_io_def split: prod.splits sum.splits)

lemma with_client_Inr:
  assumes "with_client env body t = (Inr b, t'')"
  obtains t0 where "body (t @ [Connect]) = (Inr b, t0)" and "t'' = t0 @ [Disconnect]"
  using assms
  by (cases "connect env (length t)"; cases "body (t @ [Connect])")
     (auto simp: with_client_def bind_io_def call_io_def)

lemma step_Inr:
  assumes "bind_io (get_prompt_io env name args) (\<lambda>p.
      bind_io (converse_prompt env p) (\<lambda>res. lift_io (h res))) t = (Inr v, t')"
  shows "\<exists>req. t' = t @ [GetPrompt name args, Converse req]"
  using assms
  by (auto simp: bind_io_def get_prompt_io_def call_io_def converse_prompt_def lift_io_def Let_def
      split: sum.splits prod.splits)

lemma run_keyword_prompt_Inr:
  assumes "run_keyword_prompt env code t = (Inr v, t')"
  shows "\<exists>req. t' = t @ [GetPrompt ''Get Keywords From Code'' [(''code'', JString code)], Converse req]"
  using assms
  by (auto simp: run_keyword_prompt_def bind_io_def get_prompt_io_def call_io_def
      converse_prompt_def lift_io_def Let_def split: sum.splits prod.splits)

lemma prompt_requests_append [simp]:
  "prompt_requests (a @ b) = prompt_requests a @ prompt_requests b"
  by (simp add: prompt_requests_def)

lemma prints_io_run: "prints_io ss t = (Inr (), t @ map Print ss)"
  by (induction ss arbitrary: t) (simp_all add: return_io_def bind_io_def print_io_def)

lemma prompt_requests_prints [simp]: "prompt_requests (map Print ss) = []"
  by (induction ss) (simp_all add: prompt_requests_def)

lemma run_Inr:
  assumes "run env code_file [] = (Inr blogpost, t)"
  shows "\<exists>code intro main. code_files env code_file = Some code \<and>
     prompt_requests t =
       [(''Get Keywords From Code'', [(''code'', JString code)]),
        (''Get Intro From Keywords'', [(''keywords'', fixed_keywords)]),
        (''Get Main Section From Code'', [(''keywords'', fixed_keywords), (''code'', JString code)]),
        (''Aggregate Blog Sections'',
           [(''intro'', intro), (''main'', main), (''outlook'', JString outlook_text)])]"
proof (cases "code_files env code_file")
  case None
  with assms show ?thesis by (simp add: run_def lift_io_def)
next
  case (Some code)
  let ?body = "bind_io (call_io Ping (ping env)) (\<lambda>_.
             bind_io (call_io ListPrompts (list_prompts env)) (\<lambda>prompts.
             bind_io (prints_io ([''Available Prompts:'',
                                  ''Total Prompts: '' @ str_nat (length prompts)]
                                 @ map (\<lambda>name. ''- '' @ name) prompts)) (\<lambda>_.
             bind_io (run_keyword_prompt env code) (\<lambda>keywords.
             bind_io (run_intro_prompt env fixed_keywords) (\<lambda>intro.
             bind_io (run_main_prompt env fixed_keywords code) (\<lambda>main_part.
             bind_io (run_aggregate_prompt env intro main_part (JString outlook_text))
               (\<lambda>blogpost.
             return_io blogpost)))))))"
  from assms have w: "with_client env ?body [] = (Inr blogpost, t)"
    unfolding run_def Some option.case .
  then obtain t0 where b: "?body ([] @ [Connect]) = (Inr blogpost, t0)" and t: "t = t0 @ [Disconnect]"
    by (rule with_client_Inr)
  from b obtain u1 t1 where 1: "call_io Ping (ping env) ([] @ [Connect]) = (Inr u1, t1)"
    and b1: "bind_io (call_io ListPrompts (list_prompts env)) (\<lambda>prompts.
             bind_io (prints_io ([''Available Prompts:'',
                                  ''Total Prompts: '' @ str_nat (length prompts)]
                                 @ map (\<lambda>name. ''- '' @ name) prompts)) (\<lambda>_.
             bind_io (run_keyword_prompt env code) (\<lambda>keywords.
             bind_io (run_intro_prompt env fixed_keywords) (\<lambda>intro.
             bind_io (run_main_prompt env fixed_keywords code) (\<lambda>main_part.
             bind_io (run_aggregate_prompt env intro main_part (JString outlook_text))
               (\<lambda>blogpost.
             return_io blogpost)))))) t1 = (Inr blogpost, t0)"
    by (rule bind_io_Inr)
  from 1 have t1: "t1 = [Connect, Ping]" by (auto simp: call_io_def)
  from b1 obtain prompts t2 where 2: "call_io ListPrompts (list_prompts env) t1 = (Inr prompts, t2)"
    and b2: "bind_io (prints_io ([''Available Prompts:'',
                                  ''Total Prompts: '' @ str_nat (length prompts)]
                                 @ map (\<lambda>name. ''- '' @ name) prompts)) (\<lambda>_.
             bind_io (run_keyword_prompt env code) (\<lambda>keywords.
             bind_io (run_intro_prompt env fixed_keywords) (\<lambda>intro.
             bind_io (run_main_prompt env fixed_keywords code) (\<lambda>main_part.
             bind_io (run_aggregate_prompt env intro main_part (JString outlook_text))
               (\<lambda>blogpost.
             return_io blogpost))))) t2 = (Inr blogpost, t0)"
    by (rule bind_io_Inr)
  from 2 t1 have t2: "t2 = [Connect, Ping, ListPrompts]" by (auto simp: call_io_def)
  from b2 obtain u3 t3 where 3: "prints_io ([''Available Prompts:'',
                                  ''Total Prompts: '' @ str_nat (length prompts)]
                                 @ map (\<lambda>name. ''- '' @ name) prompts) t2 = (Inr u3, t3)"
    and b3: "bind_io (run_keyword_prompt env code) (\<lambda>keywords.
             bind_io (run_intro_prompt env fixed_keywords) (\<lambda>intro.
             bind_io (run_main_prompt env fixed_keywords code) (\<lambda>main_part.
             bind_io (run_aggregate_prompt env intro main_part (JString outlook_text))
               (\<lambda>blogpost.
             return_io blogpost)))) t3 = (Inr blogpost, t0)"
    by (rule bind_io_Inr)
  from 3 have p3: "prompt_requests t3 = []"
    unfolding prints_io_run t2 by (auto simp: prompt_requests_def)
  from b3 obtain kws t4 where 4: "run_keyword_prompt env code t3 = (Inr kws, t4)"
    and b4: "bind_io (run_intro_prompt env fixed_keywords) (\<lambda>intro.
             bind_io (run_main_prompt env fixed_keywords code) (\<lambda>main_part.
             bind_io (run_aggregate_prompt env intro main_part (JString outlook_text))
               (\<lambda>blogpost.
             return_io blogpost))) t4 = (Inr blogpost, t0)"
    by (rule bind_io_Inr)
  from b4 obtain intro t5 where 5: "run_intro_prompt env fixed_keywords t4 = (Inr intro, t5)"
    and b5: "bind_io (run_main_prompt env fixed_keywords code) (\<lambda>main_part.
             bind_io (run_aggregate_prompt env intro main_part (JString outlook_text))
               (\<lambda>blogpost.
             return_io blogpost)) t5 = (Inr blogpost, t0)"
    by (rule bind_io_Inr)
  from b5 obtain main_part t6 where 6: "run_main_prompt env fixed_keywords code t5 = (Inr main_part, t6)"
    and b6: "bind_io (run_aggregate_prompt env intro main_part (JString outlook_text))
               (\<lambda>blogpost.
             return_io blogpost) t6 = (Inr blogpost, t0)"
    by (rule bind_io_Inr)
  from b6 obtain b t7 where 7: "run_aggregate_prompt env intro main_part (JString outlook_text) t6 = (Inr b, t7)"
    and b7: "return_io b t7 = (Inr blogpost, t0)"
    by (rule bind_io_Inr)
  from b7 have t7: "t0 = t7" by (simp add: return_io_def)
  from run_keyword_prompt_Inr [OF 4] obtain r4 where
    e4: "t4 = t3 @ [GetPrompt ''Get Keywords From Code'' [(''code'', JString code)], Converse r4]"
    by blast
  from step_Inr [OF 5 [unfolded run_intro_prompt_def]] obtain r5 where
    e5: "t5 = t4 @ [GetPrompt ''Get Intro From Keywords'' [(''keywords'', fixed_keywords)], Converse r5]"
    by blast
  from step_Inr [OF 6 [unfolded run_main_prompt_def]] obtain r6 where
    e6: "t6 = t5 @ [GetPrompt ''Get Main Section From Code''
                [(''keywords'', fixed_keywords), (''code'', JString code)], Converse r6]"
    by blast
  from step_Inr [OF 7 [unfolded run_aggregate_prompt_def]] obtain r7 where
    e7: "t7 = t6 @ [GetPrompt ''Aggregate Blog Sections''
                [(''intro'', intro), (''main'', main_part), (''outlook'', JString outlook_text)], Converse r7]"
    by blast
  have "prompt_requests t =
       [(''Get Keywords From Code'', [(''code'', JString code)]),
        (''Get Intro From Keywords'', [(''keywords'', fixed_keywords)]),
        (''Get Main Section From Code'', [(''keywords'', fixed_keywords), (''code'', JString code)]),
        (''Aggregate Blog Sections'',
           [(''intro'', intro), (''main'', main_part), (''outlook'', JString outlook_text)])]"
    unfolding t t7 e7 e6 e5 e4 by (simp add: p3) (simp add: prompt_requests_def)
  with Some show ?thesis by blast
qed

lemma strip_fenced:
  \<open>py_replace [CHR 0x60, CHR 0x60, CHR 0x60] []
     (py_replace ([CHR 0x60, CHR 0x60, CHR 0x60] @ ''json'') [] fenced_reply)
   = ''\<newline>{"keywords": ["A","B"]}\<newline>''\<close>
  by (simp add: py_replace_def fenced_reply_def)

lemma reply_text_llm_reply [simp]: "reply_text (llm_reply text) = Inr text"
  by (simp add: reply_text_def llm_reply_def)

lemma load_keywords_invalid:
  assumes "loads env (py_replace [CHR 0x60, CHR 0x60, CHR 0x60] []
              (py_replace ([CHR 0x60, CHR 0x60, CHR 0x60] @ ''json'') [] s)) = None"
  shows "load_keywords env (JString s) = Inl (ValueError ''Error Loading Keyword Response'')"
  using assms by (simp add: load_keywords_def)

lemma run_keyword_prompt_invalid:
  assumes "run_keyword_prompt env code t = (r, t')"
    and "get_prompt env (length t) ''Get Keywords From Code'' [(''code'', JString code)] = Inr p"
    and "converse env (Suc (length t)) (JObject [(''modelId'', JString PROMPT_MODEL_ID),
                             (''messages'', prompt_messages p)]) = Inr res"
    and "reply_text res = Inr (JString s)"
    and "loads env (py_replace [CHR 0x60, CHR 0x60, CHR 0x60] []
              (py_replace ([CHR 0x60, CHR 0x60, CHR 0x60] @ ''json'') [] s)) = None"
  shows "r = Inl (ValueError ''Error Loading Keyword Response'')"
  using assms
  by (simp add: run_keyword_prompt_def bind_io_def get_prompt_io_def call_io_def converse_prompt_def
      lift_io_def Let_def load_keywords_def)

lemma blog_world_loads:
  "load_keywords blog_world (JString fenced_reply) = Inr keywords_document"
  unfolding load_keywords_def json.case strip_fenced by (simp add: blog_world_def)

lemma blog_world_keywords:
  "fst (run_keyword_prompt blog_world ''import fastmcp'' []) = Inr keywords_document"
proof -
  have g: "get_prompt blog_world n name arguments = Inr name" for n name arguments
    by (simp add: blog_world_def)
  have c: "converse blog_world n keyword_request = Inr (llm_reply (JString fenced_reply))" for n
    by (simp add: blog_world_def)
  show ?thesis
    by (simp add: run_keyword_prompt_def bind_io_def get_prompt_io_def call_io_def
        converse_prompt_def lift_io_def Let_def blog_world_loads g c [unfolded keyword_request_def])
qed

lemma blog_world_simps:
  "code_files blog_world ''client.py'' = Some ''import fastmcp''"
  "connect blog_world n = Inr ()"
  "ping blog_world n = Inr ()"
  "list_prompts blog_world n = Inr [''Greet MCP Server'', ''Get Keywords From Code'']"
  "get_prompt blog_world n name arguments = Inr name"
  "converse blog_world n request = Inr (llm_reply (JString
                    (if request = keyword_request then fenced_reply else ''Some text.'')))"
  by (simp_all add: blog_world_def)

lemma blog_world_run:
  "run blog_world ''client.py'' [] =
     (Inr (JString ''Some text.''),
      [Connect, Ping, ListPrompts, Print ''Available Prompts:'', Print ''Total Prompts: 2'',
       Print ''- Greet MCP Server'', Print ''- Get Keywords From Code'',
       GetPrompt ''Get Keywords From Code'' [(''code'', JString ''import fastmcp'')],
       Converse keyword_request,
       GetPrompt ''Get Intro From Keywords'' [(''keywords'', fixed_keywords)],
       Converse (JObject [(''modelId'', JString PROMPT_MODEL_ID),
                          (''messages'', prompt_messages ''Get Intro From Keywords'')]),
       GetPrompt ''Get Main Section From Code''
         [(''keywords'', fixed_keywords), (''code'', JString ''import fastmcp'')],
       Converse (JObject [(''modelId'', JString PROMPT_MODEL_ID),
                          (''messages'', prompt_messages ''Get Main Section From Code'')]),
       GetPrompt ''Aggregate Blog Sections''
         [(''intro'', JString ''Some text.''), (''main'', JString ''Some text.''),
          (''outlook'', JString outlook_text)],
       Converse (JObject [(''modelId'', JString PROMPT_MODEL_ID),
                          (''messages'', prompt_messages ''Aggregate Blog Sections'')]),
       Disconnect])"
proof -
  note l = blog_world_loads
  have ne: "JObject [(''modelId'', JString PROMPT_MODEL_ID), (''messages'', prompt_messages p)]
      = keyword_request \<longleftrightarrow> p = ''Get Keywords From Code''" for p
    by (auto simp: keyword_request_def prompt_messages_def)
  show ?thesis
    by (simp add: run_def with_client_def run_keyword_prompt_def run_intro_prompt_def
        run_main_prompt_def run_aggregate_prompt_def bind_io_def get_prompt_io_def call_io_def
        converse_prompt_def lift_io_def return_io_def print_io_def Let_def blog_world_simps l ne
        str_nat.simps digit_char_def)
qed

lemma bind_io_return [simp]: "bind_io (return_io a) f = f a"
  by (simp add: bind_io_def return_io_def)

lemma bind_io_lift_Inr [simp]: "bind_io (lift_io (Inr a)) f = f a"
  by (simp add: bind_io_def lift_io_def)

lemma bind_io_assoc: "bind_io (bind_io m f) g = bind_io m (\<lambda>a. bind_io (f a) g)"
  by (rule ext) (simp add: bind_io_def split: prod.splits sum.splits)

lemma bind_io_apply:
  "m t = (Inr a, t') \<Longrightarrow> bind_io m f t = f a t'"
  by (simp add: bind_io_def)

lemma process_contents_append:
  "process_contents env sys cfg (xs @ ys) st =
     bind_io (process_contents env sys cfg xs st) (\<lambda>st'. process_contents env sys cfg ys st')"
proof (induction xs arbitrary: st)
  case Nil
  then show ?case by simp
next
  case (Cons x xs)
  have "process_contents env sys cfg (xs @ ys) =
      (\<lambda>st. bind_io (process_contents env sys cfg xs st) (\<lambda>st'. process_contents env sys cfg ys st'))"
    by (rule ext) (rule Cons.IH)
  then show ?case by (simp add: bind_io_assoc)
qed

lemma handle_text_ok:
  assumes "text_is_string b"
  shows "handle_text b st =
     Inr (st\<lparr>final_text := final_text st @ map JString (text_of b),
             assistant_message_content := assistant_message_content st @ filter has_text [b]\<rparr>)"
proof -
  from assms obtain kvs where b: "b = JObject kvs" by (cases b) simp_all
  show ?thesis
  proof (cases "map_of kvs ''text''")
    case None
    then have "''text'' \<notin> fst ` set kvs" by (simp add: map_of_eq_None_iff)
    with None show ?thesis by (simp add: handle_text_def b)
  next
    case (Some v)
    with assms b obtain s where v: "v = JString s" by (cases v) simp_all
    have "''text'' \<in> fst ` set kvs"
      using map_of_SomeD [OF Some] by (simp add: image_iff) (metis fst_conv)
    with Some v show ?thesis by (simp add: handle_text_def b)
  qed
qed

lemma handle_tool_use_plain:
  assumes "\<not> is_tool_use b" and "text_is_string b"
  shows "handle_tool_use env sys cfg b st = return_io st"
proof -
  from assms(2) obtain kvs where b: "b = JObject kvs" by (cases b) simp_all
  with assms(1) have "''toolUse'' \<notin> fst ` set kvs" by (simp add: map_of_eq_None_iff)
  then show ?thesis by (simp add: handle_tool_use_def b)
qed

lemma process_contents_plain:
  assumes "list_all plain_block bs"
  shows "process_contents env sys cfg bs st =
     return_io (st\<lparr>final_text := final_text st @ map JString (texts_of bs),
                   assistant_message_content := assistant_message_content st @ filter has_text bs\<rparr>)"
  using assms
proof (induction bs arbitrary: st)
  case Nil
  then show ?case by (simp add: texts_of_def)
next
  case (Cons b bs)
  then have p: "\<not> is_tool_use b" "text_is_string b"
    by (simp_all add: plain_block_def)
  from Cons.prems have r: "list_all plain_block bs" by simp
  show ?case
    by (simp add: handle_text_ok [OF p(2)] handle_tool_use_plain [OF p] Cons.IH [OF r] texts_of_def)
qed

lemma tool_use_block_shape:
  assumes "tool_use_parts b = Some (name, args, use_id)"
  obtains kvs u where "b = JObject kvs" and "map_of kvs ''toolUse'' = Some (JObject u)"
    and "map_of u ''name'' = Some name" and "map_of u ''input'' = Some args"
    and "map_of u ''toolUseId'' = Some use_id"
proof -
  from assms obtain kvs where b: "b = JObject kvs" by (cases b) simp_all
  with assms obtain v where v: "map_of kvs ''toolUse'' = Some v"
    by (cases "map_of kvs ''toolUse''") simp_all
  with assms b obtain u where u: "v = JObject u" by (cases v) simp_all
  from assms b v u have "map_of u ''name'' = Some name \<and> map_of u ''input'' = Some args
     \<and> map_of u ''toolUseId'' = Some use_id"
    by (auto split: option.splits)
  with b v u that show ?thesis by blast
qed

lemma handle_tool_use_ok:
  assumes parts: "tool_use_parts b = Some (name, args, use_id)"
    and call: "call_tool env (length t) name args = Inr result"
    and conv: "converse_tools env (Suc (length t))
        (converse_request sys cfg
           (sent_messages (assistant_message_content st @ [b])
              (messages st @ [AssistantContent,
                  Message (tool_result_message use_id (tool_result_content result))])))
        = Inr followup"
    and reply: "reply_text followup = Inr text"
  shows "handle_tool_use env sys cfg b st t =
     (Inr (st\<lparr>final_text := final_text st @ [JString (diagnostic name args), text],
              assistant_message_content := assistant_message_content st @ [b],
              messages := messages st @ [AssistantContent,
                  Message (tool_result_message use_id (tool_result_content result))]\<rparr>),
      t @ [CallTool name args,
           Converse (converse_request sys cfg
             (sent_messages (assistant_message_content st @ [b])
                (messages st @ [AssistantContent,
                  Message (tool_result_message use_id (tool_result_content result))])))])"
proof -
  from parts obtain kvs u where b: "b = JObject kvs" and tu: "map_of kvs ''toolUse'' = Some (JObject u)"
    and n: "map_of u ''name'' = Some name" and a: "map_of u ''input'' = Some args"
    and i: "map_of u ''toolUseId'' = Some use_id"
    by (rule tool_use_block_shape)
  have mem: "''toolUse'' \<in> fst ` set kvs"
    using map_of_SomeD [OF tu] by (simp add: image_iff) (metis fst_conv)
  show ?thesis
    unfolding handle_tool_use_def b
    by (simp add: mem tu n a i bind_io_def call_io_def call conv [unfolded b] reply
        converse_io_def lift_io_def return_io_def Let_def diagnostic_def)
qed

lemma strings_of_strings: "strings_of (map JString ss) = Inr ss"
  by (induction ss) simp_all

lemma join_lines_strings: "join_lines (map JString ss) = Inr (str_join ''\<newline>'' ss)"
  by (simp add: join_lines_def strings_of_strings)

lemma texts_of_append [simp]: "texts_of (xs @ ys) = texts_of xs @ texts_of ys"
  by (simp add: texts_of_def)

lemma texts_of_single [simp]: "texts_of [b] = text_of b"
  by (simp add: texts_of_def)

lemma bind_io_call:
  "answer (length t) = Inr a \<Longrightarrow> bind_io (call_io ev answer) f t = f a (t @ [ev])"
  by (simp add: bind_io_def call_io_def)

lemma process_query_one_tool_use:
  assumes tools: "list_tools env 0 = Inr tools"
    and first: "converse_tools env 1 (first_request system_text tools query) = Inr response"
    and contents: "response_contents response = Inr (before @ [block] @ after)"
    and before: "list_all plain_block before"
    and after: "list_all plain_block after"
    and parts: "tool_use_parts block = Some (name, args, use_id)"
    and str_ok: "text_is_string block"
    and call: "call_tool env 2 name args = Inr result"
    and followup: "converse_tools env 3
        (followup_request system_text tools query
           (filter has_text (before @ [block]) @ [block]) use_id result) = Inr followup"
    and reply: "reply_text followup = Inr (JString reply)"
  shows "process_query env system_text query [] =
      (Inr (str_join ''\<newline>''
              (texts_of (before @ [block]) @ [diagnostic name args, reply] @ texts_of after)),
       [ListTools,
        Converse (first_request system_text tools query),
        CallTool name args,
        Converse (followup_request system_text tools query
                    (filter has_text (before @ [block]) @ [block]) use_id result)])"
proof -
  let ?cfg = "tool_config tools"
  let ?t = "[ListTools, Converse (first_request system_text tools query)]"
  let ?R = "followup_request system_text tools query
                    (filter has_text (before @ [block]) @ [block]) use_id result"
  define st0 where "st0 = \<lparr>final_text = [], assistant_message_content = [],
                 messages = [Message (user_message query)]\<rparr>"
  define st1 where "st1 = st0\<lparr>final_text := final_text st0 @ map JString (texts_of before),
                   assistant_message_content :=
                     assistant_message_content st0 @ filter has_text before\<rparr>"
  define st2 where "st2 = st1\<lparr>final_text := final_text st1 @ map JString (text_of block),
                   assistant_message_content :=
                     assistant_message_content st1 @ filter has_text [block]\<rparr>"
  define st3 where "st3 = st2\<lparr>final_text := final_text st2 @ [JString (diagnostic name args), JString reply],
              assistant_message_content := assistant_message_content st2 @ [block],
              messages := messages st2 @ [AssistantContent,
                  Message (tool_result_message use_id (tool_result_content result))]\<rparr>"
  define st4 where "st4 = st3\<lparr>final_text := final_text st3 @ map JString (texts_of after),
                   assistant_message_content :=
                     assistant_message_content st3 @ filter has_text after\<rparr>"
  have req: "converse_request system_text ?cfg
           (sent_messages (assistant_message_content st2 @ [block])
              (messages st2 @ [AssistantContent,
                  Message (tool_result_message use_id (tool_result_content result))])) = ?R"
    by (simp add: followup_request_def sent_messages_def st2_def st1_def st0_def)
  have tu: "handle_tool_use env system_text ?cfg block st2 ?t = (Inr st3, ?t @ [CallTool name args, Converse ?R])"
    using handle_tool_use_ok [of block name args use_id env ?t result system_text ?cfg st2 followup
        "JString reply", OF parts] call followup reply
    unfolding req st3_def by (simp add: numeral_2_eq_2 numeral_3_eq_3)
  have ht: "handle_text block st1 = Inr st2"
    unfolding st2_def by (rule handle_text_ok [OF str_ok])
  have blk: "process_contents env system_text ?cfg [block] st1 ?t
      = (Inr st3, ?t @ [CallTool name args, Converse ?R])"
    by (simp add: ht) (simp add: bind_io_def tu return_io_def)
  have pb: "process_contents env system_text ?cfg before st0 = return_io st1"
    unfolding st1_def by (rule process_contents_plain [OF before])
  have pa: "process_contents env system_text ?cfg after st3 = return_io st4"
    unfolding st4_def by (rule process_contents_plain [OF after])
  have loop: "process_contents env system_text ?cfg (before @ [block] @ after) st0 ?t
      = (Inr st4, ?t @ [CallTool name args, Converse ?R])"
  proof -
    have "process_contents env system_text ?cfg (before @ [block] @ after) st0 ?t
        = bind_io (process_contents env system_text ?cfg [block] st1)
            (\<lambda>st'. process_contents env system_text ?cfg after st') ?t"
      unfolding process_contents_append pb bind_io_return ..
    also have "\<dots> = process_contents env system_text ?cfg after st3
                       (?t @ [CallTool name args, Converse ?R])"
      by (simp only: bind_io_def blk prod.case sum.case)
    also have "\<dots> = (Inr st4, ?t @ [CallTool name args, Converse ?R])"
      unfolding pa return_io_def ..
    finally show ?thesis .
  qed
  have ft: "final_text st4 = map JString
      (texts_of (before @ [block]) @ [diagnostic name args, reply] @ texts_of after)"
    by (simp add: st4_def st3_def st2_def st1_def st0_def)
  have fr: "converse_request system_text ?cfg (sent_messages [] [Message (user_message query)])
      = first_request system_text tools query"
    by (simp add: first_request_def sent_messages_def)
  have first': "converse_tools env (Suc 0) (first_request system_text tools query) = Inr response"
    using first by simp
  have q: "process_query env system_text query [] =
     bind_io (process_contents env system_text ?cfg (before @ [block] @ after) st0)
       (\<lambda>st. lift_io (join_lines (final_text st))) ?t"
    unfolding process_query_def st0_def [symmetric]
    by (simp add: bind_io_call converse_io_def tools fr first' contents
        del: process_contents.simps)
  have "process_query env system_text query [] =
     lift_io (join_lines (final_text st4)) (?t @ [CallTool name args, Converse ?R])"
    unfolding q by (simp only: bind_io_def loop prod.case sum.case)
  moreover have "join_lines (final_text st4) = Inr (str_join ''\<newline>''
      (texts_of (before @ [block]) @ [diagnostic name args, reply] @ texts_of after))"
    unfolding ft by (rule join_lines_strings)
  ultimately show ?thesis
    by (simp add: lift_io_def)
qed

lemma diagnostic_example:
  "diagnostic (JString ''get_alerts'') (JObject [(''state'', JString ''CA'')]) = alerts_diagnostic"
  by code_simp

lemma chat_world_run:
  assumes "list_all plain_block before" and "list_all plain_block after"
  shows "process_query_stdio (chat_world (before @ [tool_use_block] @ after)) ''Any alerts in CA?'' [] =
      (Inr (str_join ''\<newline>''
              (texts_of before @ [alerts_diagnostic, ''There are no alerts in California.'']
               @ texts_of after)),
       [ListTools,
        Converse (first_request system_text_stdio [alerts_tool] ''Any alerts in CA?''),
        CallTool (JString ''get_alerts'') (JObject [(''state'', JString ''CA'')]),
        Converse (alerts_followup (filter has_text before @ [tool_use_block]))])"
proof -
  have r: "response_contents (llm_content bs) = Inr bs" for bs
    by (simp add: response_contents_def llm_content_def)
  have t: "reply_text (llm_content [JObject [(''text'', JString s)]]) = Inr (JString s)" for s
    by (simp add: reply_text_def llm_content_def)
  have p: "tool_use_parts tool_use_block
      = Some (JString ''get_alerts'', JObject [(''state'', JString ''CA'')], JString ''tooluse_1'')"
    by (simp add: tool_use_block_def)
  have s: "text_is_string tool_use_block" "\<not> has_text tool_use_block"
    "text_of tool_use_block = []"
    by (simp_all add: tool_use_block_def)
  show ?thesis
    unfolding process_query_stdio_def alerts_followup_def
    using process_query_one_tool_use [of "chat_world (before @ [tool_use_block] @ after)"
        "[alerts_tool]" system_text_stdio "''Any alerts in CA?''"
        "llm_content (before @ [tool_use_block] @ after)" before tool_use_block after
        "JString ''get_alerts''" "JObject [(''state'', JString ''CA'')]" "JString ''tooluse_1''"
        "[TextContent ''No active alerts for this state.'']"
        "llm_content [JObject [(''text'', JString ''There are no alerts in California.'')]]"
        "''There are no alerts in California.''", OF _ _ r assms p s(1) _ _ t]
    by (simp add: chat_world_def diagnostic_example s)
qed

subsection \<open>Weather alerts\<close>

text \<open>
  C4, as stated, at a response whose only feature carries no \<open>properties\<close> field: the
  claim has \<open>get_alerts\<close> render the feature with the defaults; the lookup
  \<open>feature["properties"]\<close> raises instead.
\<close>

theorem get_alerts_feature_without_properties:
  "get_alerts alerts_without_properties_env ''CA'' = Inl (KeyError (JString ''properties''))"
  by (simp add: get_alerts_def alerts_without_properties_env_def alerts_without_properties_def
      format_alert_def make_nws_request_scripted)

text \<open>
  C4, amended: when the fetch yields no data, or a JSON object whose \<open>features\<close> field,
  if present, is a list of objects that each carry a \<open>properties\<close> object,
  \<open>get_alerts\<close> returns the text the specification describes: the "unable" sentence
  without data or without \<open>features\<close>, the "no active alerts" sentence for the empty
  list, and otherwise the blocks, defaults substituted, joined by the separator.
\<close>

theorem get_alerts_amended:
  assumes fetch: "make_nws_request env 0 (JString (alerts_url state)) = Inr data"
    and ok: "alerts_shape_ok data"
  shows "get_alerts env state = Inr (alerts_text data)"
proof (cases data)
  case (JObject kvs)
  show ?thesis
  proof (cases "map_of kvs ''features''")
    case None
    then have "''features'' \<notin> fst ` set kvs" by (simp add: map_of_eq_None_iff)
    with None show ?thesis
      by (simp add: get_alerts_after_fetch [OF fetch] JObject alerts_text_def)
  next
    case (Some v)
    with ok JObject obtain fs where v: "v = JArray fs" and all: "list_all has_properties fs"
      by (auto split: json.splits)
    have ne: "kvs \<noteq> []" using Some by auto
    have mem: "''features'' \<in> fst ` set kvs"
      using map_of_SomeD [OF Some] by (simp add: image_iff) (metis fst_conv)
    have m: "map_exc format_alert fs = Inr (map alert_block fs)"
      using all by (intro map_exc_all format_alert_block) (simp add: list_all_iff)
    show ?thesis
      by (simp add: get_alerts_after_fetch [OF fetch] JObject alerts_text_def Some v ne m mem)
  qed
qed (use ok in \<open>simp_all add: get_alerts_after_fetch [OF fetch] alerts_text_def\<close>)

theorem get_alerts_amended_witness:
  "make_nws_request two_alerts_env 0
     (JString (alerts_url ''CA'')) = Inr two_alerts
   \<and> alerts_shape_ok two_alerts
   \<and> get_alerts two_alerts_env ''CA'' = Inr
     ''\<newline>        Event: Flood Warning\<newline>        Area: Marin\<newline>        Severity: Unknown\<newline>        Description: No description available\<newline>        Instructions: No specific instructions provided\<newline>    \<newline>---\<newline>\<newline>        Event: Unknown\<newline>        Area: Unknown\<newline>        Severity: Severe\<newline>        Description: No description available\<newline>        Instructions: No specific instructions provided\<newline>    ''"
proof -
  have f: "make_nws_request two_alerts_env 0
     (JString (alerts_url ''CA'')) = Inr two_alerts"
    by (simp add: two_alerts_env_def make_nws_request_scripted)
  have ok: "alerts_shape_ok two_alerts"
    by (simp add: two_alerts_def has_properties_def)
  have t: "alerts_text two_alerts =
     ''\<newline>        Event: Flood Warning\<newline>        Area: Marin\<newline>        Severity: Unknown\<newline>        Description: No description available\<newline>        Instructions: No specific instructions provided\<newline>    \<newline>---\<newline>\<newline>        Event: Unknown\<newline>        Area: Unknown\<newline>        Severity: Severe\<newline>        Description: No description available\<newline>        Instructions: No specific instructions provided\<newline>    ''"
    by (simp add: alerts_text_def two_alerts_def alert_block_def properties_of_def field_or_def
        py_str_def)
  show ?thesis using get_alerts_amended [OF f ok] f ok t by simp
qed

subsection \<open>The fetch helpers\<close>

text \<open>
  C6: whatever the URL and whatever the request ends in, \<open>make_nws_request\<close> and
  \<open>get_spaceflight_news_date\<close> return and never raise; a request that fails (no
  connection, timeout, status outside 200..299, body that does not decode) gives the
  "no data" value \<open>None\<close>, and each calling tool turns that value into its fixed message
  (\<open>get_alerts\<close>, both requests of \<open>get_forecast\<close>) or into the protocol error
  "API Call Failed." (\<open>get_todays_spacenews\<close>).
\<close>

theorem fetch_failures_become_no_data:
  "(\<exists>data. make_nws_request env n url = Inr data)
   \<and> (\<exists>news. get_spaceflight_news_date env d = Inr news)
   \<and> (request_fails env n u \<longrightarrow> make_nws_request env n (JString u) = Inr JNull)
   \<and> (request_fails env 0 (news_endpoint d) \<longrightarrow> get_spaceflight_news_date env d = Inr None)
   \<and> (request_fails env 0 (alerts_url state) \<longrightarrow>
        get_alerts env state = Inr ''Unable to fetch alerts or no alerts found.'')
   \<and> (request_fails env 0 (points_url latitude longitude) \<longrightarrow>
        get_forecast env latitude longitude =
          Inr ''Unable to fetch forecast data for this location.'')
   \<and> (make_nws_request env 0 (JString (points_url latitude longitude)) = Inr (JObject kvs)
        \<and> map_of kvs ''properties'' = Some (JObject props)
        \<and> map_of props ''forecast'' = Some (JString forecast_url)
        \<and> request_fails env 1 forecast_url \<longrightarrow>
        get_forecast env latitude longitude = Inr ''Unable to fetch detailed forecast.'')
   \<and> (request_fails (web nenv) 0 (news_endpoint (today nenv)) \<longrightarrow>
        get_todays_spacenews nenv language = (Inl (FastMCPError ''API Call Failed.''), []))"
proof -
  have a: "request_fails env 0 (alerts_url state) \<Longrightarrow>
        get_alerts env state = Inr ''Unable to fetch alerts or no alerts found.''"
    by (simp add: get_alerts_after_fetch [OF make_nws_request_fails])
  have p: "request_fails env 0 (points_url latitude longitude) \<Longrightarrow>
        get_forecast env latitude longitude =
          Inr ''Unable to fetch forecast data for this location.''"
    by (simp add: get_forecast_after_points [OF make_nws_request_fails])
  have f: "get_forecast env latitude longitude = Inr ''Unable to fetch detailed forecast.''"
    if 1: "make_nws_request env 0 (JString (points_url latitude longitude)) = Inr (JObject kvs)"
      and 2: "map_of kvs ''properties'' = Some (JObject props)"
      and 3: "map_of props ''forecast'' = Some (JString forecast_url)"
      and 4: "request_fails env 1 forecast_url"
  proof -
    have "kvs \<noteq> []" using 2 by auto
    then show ?thesis
      using make_nws_request_fails [OF 4]
      by (simp add: get_forecast_after_points [OF 1] 2 3)
  qed
  have s: "request_fails (web nenv) 0 (news_endpoint (today nenv)) \<Longrightarrow>
        get_todays_spacenews nenv language = (Inl (FastMCPError ''API Call Failed.''), [])"
    by (simp add: get_todays_spacenews_def get_spaceflight_news_date_fails)
  show ?thesis
    using make_nws_request_returns [of env n url] get_spaceflight_news_date_returns [of env d]
      make_nws_request_fails [of env n u] get_spaceflight_news_date_fails [of env d] a p f s
    by blast
qed

theorem fetch_failures_become_no_data_witness:
  "request_fails timeout_env 0 (alerts_url ''CA'')
   \<and> make_nws_request timeout_env 0 (JString (alerts_url ''CA'')) = Inr JNull
   \<and> get_spaceflight_news_date timeout_env \<lparr>date_year = 2025, date_month = 4, date_day = 9\<rparr> = Inr None
   \<and> get_alerts timeout_env ''CA'' = Inr ''Unable to fetch alerts or no alerts found.''
   \<and> get_forecast timeout_env ''37.77'' ''-122.42'' =
        Inr ''Unable to fetch forecast data for this location.''
   \<and> get_todays_spacenews timeout_news_env ''DE'' = (Inl (FastMCPError ''API Call Failed.''), [])
   \<and> request_fails forecast_unavailable_env 1
        ''https://api.weather.gov/gridpoints/MTR/84,105/forecast''
   \<and> get_forecast forecast_unavailable_env ''37.77'' ''-122.42'' =
        Inr ''Unable to fetch detailed forecast.''"
proof -
  have w: "web timeout_news_env = timeout_env" "today timeout_news_env = \<lparr>date_year = 2025, date_month = 4, date_day = 9\<rparr>"
    by (simp_all add: timeout_news_env_def)
  have pd: "make_nws_request forecast_unavailable_env 0 (JString (points_url ''37.77'' ''-122.42''))
      = Inr (JObject [(''properties'',
     JObject [(''forecast'', JString ''https://api.weather.gov/gridpoints/MTR/84,105/forecast'')])])"
    by (simp add: forecast_unavailable_env_def make_nws_request_scripted points_doc_def)
  show ?thesis
    using fetch_failures_become_no_data [of timeout_env 0 "JString (alerts_url ''CA'')"
        "\<lparr>date_year = 2025, date_month = 4, date_day = 9\<rparr>" "alerts_url ''CA''" "''CA''" "''37.77''" "''-122.42''"
        "[]" "[]" "[]" timeout_news_env "''DE''"]
      fetch_failures_become_no_data [of forecast_unavailable_env 0 "JNull"
        "\<lparr>date_year = 2025, date_month = 4, date_day = 9\<rparr>" "[]" "[]" "''37.77''" "''-122.42''"
        "[(''properties'',
     JObject [(''forecast'', JString ''https://api.weather.gov/gridpoints/MTR/84,105/forecast'')])]"
        "[(''forecast'', JString ''https://api.weather.gov/gridpoints/MTR/84,105/forecast'')]"
        "''https://api.weather.gov/gridpoints/MTR/84,105/forecast''" timeout_news_env "''DE''"]
      timeout_fails unavailable_fails pd
    by (simp add: w)
qed

subsection \<open>Space news\<close>

text \<open>
  C7, as stated, at a call whose news fetch yields no item: with language \<open>EN\<close> the
  call does not return the (empty) list but aborts with "API Call Failed."; and at a
  call whose request times out, with language \<open>DE\<close>, no sampling call is made.
\<close>

theorem spacenews_language_branch_without_news:
  "get_spaceflight_news_date (web no_news_env) (today no_news_env) = Inr (Some [])
   \<and> get_todays_spacenews no_news_env ''EN'' = (Inl (FastMCPError ''API Call Failed.''), [])
   \<and> fst (get_todays_spacenews no_news_env ''EN'') \<noteq> Inr (NewsOut (JArray []))
   \<and> ''DE'' \<noteq> ''EN''
   \<and> length (snd (get_todays_spacenews timeout_news_env ''DE'')) = 0"
proof -
  have f: "get_spaceflight_news_date (web timeout_news_env) (today timeout_news_env) = Inr None"
    by (rule get_spaceflight_news_date_fails) (simp add: timeout_news_env_def timeout_fails)
  show ?thesis
    by (simp add: get_todays_spacenews_def no_news_fetch f)
qed

text \<open>
  C7, amended: for every call whose news fetch yields at least one item, a call with
  language \<open>EN\<close> returns the list of title/summary mappings as built and makes no
  sampling call; a call with any other language makes exactly one sampling call, with
  the translation prompt, and if that call raises, the tool fails with "Translation
  failed, LLM Sampling not available."; if it returns, its response is the result.
\<close>

theorem spacenews_language_branch:
  assumes "get_spaceflight_news_date (web env) (today env) = Inr (Some news)" and "news \<noteq> []"
  shows "(language = ''EN'' \<longrightarrow>
            get_todays_spacenews env language = (Inr (NewsOut 
              (JArray (map (\<lambda>n. JObject [(''title'', fst n), (''summary'', snd n)]) news))), []))
       \<and> (language \<noteq> ''EN'' \<longrightarrow>
            snd (get_todays_spacenews env language) = [translation_prompt language 
              (JArray (map (\<lambda>n. JObject [(''title'', fst n), (''summary'', snd n)]) news))]
          \<and> length (snd (get_todays_spacenews env language)) = 1
          \<and> (\<forall>e. sample env (translation_prompt language 
              (JArray (map (\<lambda>n. JObject [(''title'', fst n), (''summary'', snd n)]) news))) = Inl e \<longrightarrow>
                fst (get_todays_spacenews env language)
                  = Inl (FastMCPError ''Translation failed, LLM Sampling not available.''))
          \<and> (\<forall>r. sample env (translation_prompt language 
              (JArray (map (\<lambda>n. JObject [(''title'', fst n), (''summary'', snd n)]) news))) = Inr r \<longrightarrow>
                fst (get_todays_spacenews env language) = Inr (SamplingResponse r)))"
proof -
  have e: "news_entry = (\<lambda>n. JObject [(''title'', fst n), (''summary'', snd n)])"
    by (rule ext) (simp add: news_entry_def)
  show ?thesis
    using assms by (simp add: get_todays_spacenews_def Let_def e split: sum.splits)
qed

theorem spacenews_language_branch_witness:
  "get_spaceflight_news_date (web one_news_env) (today one_news_env) = Inr (Some one_news)
   \<and> one_news \<noteq> []
   \<and> get_todays_spacenews one_news_env ''EN'' =
       (Inr (NewsOut (JArray [JObject [(''title'', JString ''Starship flies''),
           (''summary'', JString ''The ninth flight test lifted off.'')]])), [])
   \<and> length (snd (get_todays_spacenews one_news_env ''DE'')) = 1
   \<and> sample one_news_env (translation_prompt ''DE''
          (JArray [JObject [(''title'', JString ''Starship flies''),
             (''summary'', JString ''The ninth flight test lifted off.'')]]))
        = Inl (ServiceError ''sampling not supported'')
   \<and> fst (get_todays_spacenews one_news_env ''DE'')
        = Inl (FastMCPError ''Translation failed, LLM Sampling not available.'')"
proof -
  have ne: "one_news \<noteq> []" by (simp add: one_news_def)
  have s: "sample one_news_env p = Inl (ServiceError ''sampling not supported'')" for p
    by (simp add: one_news_env_def sample_unavailable_def)
  have m: "map (\<lambda>n. JObject [(''title'', fst n), (''summary'', snd n)]) one_news
      = [JObject [(''title'', JString ''Starship flies''),
           (''summary'', JString ''The ninth flight test lifted off.'')]]"
    by (simp add: one_news_def)
  show ?thesis
    using spacenews_language_branch [OF one_news_fetch ne, of "''EN''"]
      spacenews_language_branch [OF one_news_fetch ne, of "''DE''"] one_news_fetch ne s
    by (simp add: m)
qed

text \<open>
  C8: when the news request fails, or the fetch gives no data or an empty list, the call
  aborts with the protocol error "API Call Failed." and makes no sampling call,
  whatever the language.
\<close>

theorem spacenews_upstream_failure:
  assumes "request_fails (web env) 0 (news_endpoint (today env))
         \<or> get_spaceflight_news_date (web env) (today env) = Inr None
         \<or> get_spaceflight_news_date (web env) (today env) = Inr (Some [])"
  shows "get_todays_spacenews env language = (Inl (FastMCPError ''API Call Failed.''), [])"
  using assms get_spaceflight_news_date_fails [of "web env" "today env"]
  by (auto simp: get_todays_spacenews_def)

theorem spacenews_upstream_failure_witness:
  "request_fails (web timeout_news_env) 0 (news_endpoint (today timeout_news_env))
   \<and> get_todays_spacenews timeout_news_env ''EN'' = (Inl (FastMCPError ''API Call Failed.''), [])
   \<and> get_todays_spacenews timeout_news_env ''DE'' = (Inl (FastMCPError ''API Call Failed.''), [])
   \<and> get_spaceflight_news_date (web no_news_env) (today no_news_env) = Inr (Some [])
   \<and> get_todays_spacenews no_news_env ''DE'' = (Inl (FastMCPError ''API Call Failed.''), [])"
proof -
  have f: "request_fails (web timeout_news_env) 0 (news_endpoint (today timeout_news_env))"
    by (simp add: timeout_news_env_def timeout_fails)
  show ?thesis
    using spacenews_upstream_failure [of timeout_news_env "''EN''"]
      spacenews_upstream_failure [of timeout_news_env "''DE''"]
      spacenews_upstream_failure [of no_news_env "''DE''"] f no_news_fetch
    by simp
qed

subsection \<open>Forecast\<close>




text \<open>
  C10: \<open>get_forecast\<close> raises a \<open>KeyError\<close>, and returns neither fallback sentence,
  when the points body is a non-empty JSON object without \<open>properties\<close>, or without
  the nested \<open>forecast\<close>; likewise when the forecast body is a non-empty object
  without \<open>properties\<close> or without \<open>periods\<close>, or when one of the first five periods
  lacks a rendered field.
\<close>

theorem get_forecast_raises_on_missing_key:
  assumes "make_nws_request env 0 (JString (points_url latitude longitude)) = Inr (JObject kvs)"
    and "kvs \<noteq> []"
  shows
   "(map_of kvs ''properties'' = None \<longrightarrow>
       get_forecast env latitude longitude = Inl (KeyError (JString ''properties'')))
  \<and> (\<forall>props. map_of kvs ''properties'' = Some (JObject props) \<and> map_of props ''forecast'' = None \<longrightarrow>
       get_forecast env latitude longitude = Inl (KeyError (JString ''forecast'')))
  \<and> (\<forall>props url fkvs.
       map_of kvs ''properties'' = Some (JObject props) \<and> map_of props ''forecast'' = Some url
       \<and> make_nws_request env 1 url = Inr (JObject fkvs) \<and> fkvs \<noteq> [] \<longrightarrow>
         (map_of fkvs ''properties'' = None \<longrightarrow>
            get_forecast env latitude longitude = Inl (KeyError (JString ''properties'')))
       \<and> (\<forall>fprops. map_of fkvs ''properties'' = Some (JObject fprops)
              \<and> map_of fprops ''periods'' = None \<longrightarrow>
            get_forecast env latitude longitude = Inl (KeyError (JString ''periods'')))
       \<and> (\<forall>fprops periods. map_of fkvs ''properties'' = Some (JObject fprops)
              \<and> map_of fprops ''periods'' = Some (JArray periods)
              \<and> list_all is_object (take 5 periods)
              \<and> \<not> list_all has_period_fields (take 5 periods) \<longrightarrow>
            (\<exists>k \<in> set period_fields.
               get_forecast env latitude longitude = Inl (KeyError (JString k)))))"
proof -
  note g = get_forecast_after_points [OF assms(1)]
  have periods: "\<exists>k \<in> set period_fields.
               get_forecast env latitude longitude = Inl (KeyError (JString k))"
    if 1: "map_of kvs ''properties'' = Some (JObject props)"
      and 2: "map_of props ''forecast'' = Some url"
      and 3: "make_nws_request env 1 url = Inr (JObject fkvs)" and 4: "fkvs \<noteq> []"
      and 5: "map_of fkvs ''properties'' = Some (JObject fprops)"
      and 6: "map_of fprops ''periods'' = Some (JArray periods)"
      and 7: "list_all is_object (take 5 periods)"
      and 8: "\<not> list_all has_period_fields (take 5 periods)"
    for props url fkvs fprops periods
  proof -
    have "\<exists>e. (\<exists>k \<in> set period_fields. e = KeyError (JString k))
            \<and> map_exc format_period (take 5 periods) = Inl e"
    proof (rule map_exc_first_failure)
      fix p assume "p \<in> set (take 5 periods)"
      with 7 have "is_object p" by (simp add: list_all_iff)
      then show "(\<exists>v. format_period p = Inr v)
          \<or> (\<exists>e. (\<exists>k \<in> set period_fields. e = KeyError (JString k)) \<and> format_period p = Inl e)"
        using format_period_block [of p] format_period_missing [of p] by blast
    next
      from 8 obtain p where p: "p \<in> set (take 5 periods)" "\<not> has_period_fields p"
        by (auto simp: list_all_iff)
      with 7 have "is_object p" by (simp add: list_all_iff)
      with p format_period_missing [of p]
      show "\<exists>x \<in> set (take 5 periods). \<exists>e. format_period x = Inl e" by blast
    qed
    then obtain k where "k \<in> set period_fields"
      "map_exc format_period (take 5 periods) = Inl (KeyError (JString k))" by blast
    then show ?thesis
      using 3 by (auto simp: g assms(2) 1 2 4 5 6)
  qed
  show ?thesis
    using assms(2) periods
    by (auto simp: g)
qed

theorem get_forecast_raises_on_missing_key_witness:
  "get_forecast (forecast_env problem_doc JNull) ''37.77'' ''-122.42''
     = Inl (KeyError (JString ''properties''))
   \<and> get_forecast (forecast_env points_without_forecast JNull) ''37.77'' ''-122.42''
     = Inl (KeyError (JString ''forecast''))
   \<and> get_forecast (forecast_env points_doc problem_doc) ''37.77'' ''-122.42''
     = Inl (KeyError (JString ''properties''))
   \<and> get_forecast (forecast_env points_doc forecast_without_periods) ''37.77'' ''-122.42''
     = Inl (KeyError (JString ''periods''))
   \<and> (\<exists>k \<in> set period_fields.
        get_forecast (forecast_env points_doc (forecast_doc [JObject [(''name'', JString ''Today'')]]))
          ''37.77'' ''-122.42'' = Inl (KeyError (JString k)))"
proof -
  let ?u = "JString (points_url ''37.77'' ''-122.42'')"
  have 1: "make_nws_request (forecast_env problem_doc f) 0 ?u
      = Inr (JObject [(''title'', JString ''Unexpected Problem'')])" for f
    by (simp add: forecast_env_requests problem_doc_def)
  have 2: "make_nws_request (forecast_env points_without_forecast f) 0 ?u
      = Inr (JObject [(''properties'', JObject [(''gridId'', JString ''MTR'')])])" for f
    by (simp add: forecast_env_requests points_without_forecast_def)
  have 3: "make_nws_request (forecast_env points_doc f) 0 ?u
      = Inr (JObject [(''properties'',
     JObject [(''forecast'', JString ''https://api.weather.gov/gridpoints/MTR/84,105/forecast'')])])" for f
    by (simp add: forecast_env_requests points_doc_def)
  have ne: "[(k, v)] \<noteq> []" for k :: string and v :: json by simp
  have np: "\<not> has_period_fields (JObject [(''name'', JString ''Today'')])"
    by (simp add: has_period_fields_def period_fields_def)
  have io: "is_object (JObject kvs)" for kvs by (simp add: is_object_def)
  show ?thesis
    using get_forecast_raises_on_missing_key [OF 1 ne, of JNull]
      get_forecast_raises_on_missing_key [OF 2 ne, of JNull]
      get_forecast_raises_on_missing_key [OF 3 ne, of problem_doc]
      get_forecast_raises_on_missing_key [OF 3 ne, of forecast_without_periods]
      get_forecast_raises_on_missing_key [OF 3 ne, of "forecast_doc [JObject [(''name'', JString ''Today'')]]"]
      np
    by (simp add: forecast_env_requests problem_doc_def forecast_without_periods_def
        forecast_doc_def io)
qed

subsection \<open>Sales resource\<close>

text \<open>
  The two branches of \<open>get_sales\<close>: the records \<open>pandas\<close> reads from the file at the
  path built from the lower-cased month and the year, or a \<open>FileNotFoundError\<close> whose
  message carries that path.
\<close>

lemma get_sales_partition:
  "get_sales env year month =
     (case files env (sales_csv_path env year month) of
        Some content \<Rightarrow> read_csv_records env content
      | None \<Rightarrow> Inl (FileNotFoundError
          (''Sales data for '' @ py_lower month @ '' '' @ str_int year @ '' not found at ''
           @ sales_csv_path env year month
           @ ''. Month must be written, month must be numeric'')))"
  unfolding get_sales_def sales_csv_path_def Let_def by (rule refl)

text \<open>
  C3, at a month without a file: the error message names the resolved path, but its
  hint reads "Month must be written, month must be numeric": it asks for a numeric
  month, where the function takes the month as a word and the year as a number, and
  it does not say that the year must be numeric. With the file present, the records
  are returned.
\<close>

theorem get_sales_missing_file_message:
  "get_sales march_env 2024 ''April'' = Inl (FileNotFoundError
     ''Sales data for april 2024 not found at /srv/mcp_servers/data/sales_data/april_2024.csv. Month must be written, month must be numeric'')
   \<and> \<not> is_substring ''year must be numeric''
     ''Sales data for april 2024 not found at /srv/mcp_servers/data/sales_data/april_2024.csv. Month must be written, month must be numeric''
   \<and> get_sales march_env 2024 ''March'' = Inr march_records"
  by code_simp

subsection \<open>Blog-post client\<close>

text \<open>
  C1: in every run, on every code file and whatever the keyword step returns, each
  request for the intro prompt carries exactly the literal keyword list
  \<open>["MCP", "FastMCP", "Prompts"]\<close>, and so does each request for the main-section
  prompt; and a run that completes has made exactly the four prompt requests, the intro
  and the main one with that list. In the witness the keyword step returns another
  document, \<open>{"keywords": ["A","B"]}\<close>.
\<close>

theorem run_always_uses_fixed_keywords:
  "(\<forall>args. GetPrompt ''Get Intro From Keywords'' args \<in> set (snd (run env code_file [])) \<longrightarrow>
       args = [(''keywords'', JArray [JString ''MCP'', JString ''FastMCP'', JString ''Prompts''])])
   \<and> (\<forall>args. GetPrompt ''Get Main Section From Code'' args \<in> set (snd (run env code_file [])) \<longrightarrow>
       map_of args ''keywords''
         = Some (JArray [JString ''MCP'', JString ''FastMCP'', JString ''Prompts'']))
   \<and> (\<forall>blogpost. fst (run env code_file []) = Inr blogpost \<longrightarrow>
       (\<exists>code intro main. code_files env code_file = Some code \<and>
          prompt_requests (snd (run env code_file [])) =
            [(''Get Keywords From Code'', [(''code'', JString code)]),
             (''Get Intro From Keywords'',
                [(''keywords'', JArray [JString ''MCP'', JString ''FastMCP'', JString ''Prompts''])]),
             (''Get Main Section From Code'',
                [(''keywords'', JArray [JString ''MCP'', JString ''FastMCP'', JString ''Prompts'']),
                 (''code'', JString code)]),
             (''Aggregate Blog Sections'',
                [(''intro'', intro), (''main'', main), (''outlook'', JString outlook_text)])]))"
proof -
  have fk: "fixed_keywords = JArray [JString ''MCP'', JString ''FastMCP'', JString ''Prompts'']"
    by (simp add: fixed_keywords_def)
  have ev: "\<exists>code. list_all (run_event code) (snd (run env code_file []))"
  proof (cases "code_files env code_file")
    case None
    then show ?thesis by (simp add: run_def lift_io_def)
  next
    case (Some code)
    from emits_run [OF Some] show ?thesis
      unfolding emits_def by (metis append_Nil)
  qed
  then obtain code where c: "\<And>e. e \<in> set (snd (run env code_file [])) \<Longrightarrow> run_event code e"
    by (auto simp: list_all_iff)
  have 1: "args = [(''keywords'', fixed_keywords)]"
    if "GetPrompt ''Get Intro From Keywords'' args \<in> set (snd (run env code_file []))" for args
    using c [OF that] by (simp add: run_event_def)
  have 2: "map_of args ''keywords'' = Some fixed_keywords"
    if "GetPrompt ''Get Main Section From Code'' args \<in> set (snd (run env code_file []))" for args
    using c [OF that] by (auto simp: run_event_def)
  have 3: "\<exists>code intro main. code_files env code_file = Some code \<and>
          prompt_requests (snd (run env code_file [])) =
            [(''Get Keywords From Code'', [(''code'', JString code)]),
             (''Get Intro From Keywords'', [(''keywords'', fixed_keywords)]),
             (''Get Main Section From Code'',
                [(''keywords'', fixed_keywords), (''code'', JString code)]),
             (''Aggregate Blog Sections'',
                [(''intro'', intro), (''main'', main), (''outlook'', JString outlook_text)])]"
    if "fst (run env code_file []) = Inr blogpost" for blogpost
    using run_Inr [of env code_file blogpost "snd (run env code_file [])"] that
    by (metis prod.collapse)
  show ?thesis using 1 2 3 unfolding fk by blast
qed

theorem run_always_uses_fixed_keywords_witness:
  "fst (run_keyword_prompt blog_world ''import fastmcp'' []) = Inr keywords_document
   \<and> fst (run blog_world ''client.py'' []) = Inr (JString ''Some text.'')
   \<and> GetPrompt ''Get Intro From Keywords''
          [(''keywords'', JArray [JString ''MCP'', JString ''FastMCP'', JString ''Prompts''])]
        \<in> set (snd (run blog_world ''client.py'' []))
   \<and> GetPrompt ''Get Main Section From Code''
          [(''keywords'', JArray [JString ''MCP'', JString ''FastMCP'', JString ''Prompts'']),
           (''code'', JString ''import fastmcp'')]
        \<in> set (snd (run blog_world ''client.py'' []))
   \<and> prompt_requests (snd (run blog_world ''client.py'' [])) =
        [(''Get Keywords From Code'', [(''code'', JString ''import fastmcp'')]),
         (''Get Intro From Keywords'',
            [(''keywords'', JArray [JString ''MCP'', JString ''FastMCP'', JString ''Prompts''])]),
         (''Get Main Section From Code'',
            [(''keywords'', JArray [JString ''MCP'', JString ''FastMCP'', JString ''Prompts'']),
           (''code'', JString ''import fastmcp'')]),
         (''Aggregate Blog Sections'',
            [(''intro'', JString ''Some text.''), (''main'', JString ''Some text.''),
             (''outlook'', JString outlook_text)])]"
proof -
  have k: "fst (run_keyword_prompt blog_world ''import fastmcp'' []) = Inr keywords_document"
    by (rule blog_world_keywords)
  show ?thesis
    using run_always_uses_fixed_keywords [of blog_world "''client.py''"] k
    by (simp add: blog_world_run prompt_requests_def fixed_keywords_def)
qed

text \<open>
  C2, at the reply \<open>```json\<newline>{"keywords": ["A","B"]}\<newline>```\<close>: the keyword step returns
  the whole decoded document, the object with the key \<open>keywords\<close>, not the list
  \<open>["A","B"]\<close> the claim and the function's docstring promise. A reply that does not
  decode raises the \<open>ValueError\<close> "Error Loading Keyword Response".
\<close>

theorem run_keyword_prompt_returns_document:
  "fst (run_keyword_prompt blog_world ''import fastmcp'' []) = Inr keywords_document
   \<and> keywords_document \<noteq> JArray [JString ''A'', JString ''B'']
   \<and> load_keywords blog_world (JString ''no json'')
       = Inl (ValueError ''Error Loading Keyword Response'')"
proof -
  have n: "py_replace [CHR 0x60, CHR 0x60, CHR 0x60] []
     (py_replace ([CHR 0x60, CHR 0x60, CHR 0x60] @ ''json'') [] ''no json'') = ''no json''"
    by (simp add: py_replace_def)
  have i: "load_keywords blog_world (JString ''no json'')
       = Inl (ValueError ''Error Loading Keyword Response'')"
    unfolding load_keywords_def json.case n by (simp add: blog_world_def)
  show ?thesis using blog_world_keywords i by (simp add: keywords_document_def)
qed

subsection \<open>Weather tool clients\<close>

text \<open>
  C5, as stated, at a first response whose only tool-use block is followed by a text
  block: the returned text is the diagnostic line, the follow-up reply and then the
  trailing text, not the join of the initial texts, the diagnostic line and the
  follow-up reply.
\<close>

theorem process_query_text_after_tool_use:
  "length (filter is_tool_use trailing_text_blocks) = 1
   \<and> fst (process_query_stdio (chat_world trailing_text_blocks) ''Any alerts in CA?'' []) =
       Inr (alerts_diagnostic @ ''\<newline>There are no alerts in California.\<newline>One moment.'')
   \<and> claimed_text trailing_text_blocks (JString ''get_alerts'')
         (JObject [(''state'', JString ''CA'')]) ''There are no alerts in California.'' =
       ''One moment.\<newline>'' @ alerts_diagnostic @ ''\<newline>There are no alerts in California.''
   \<and> fst (process_query_stdio (chat_world trailing_text_blocks) ''Any alerts in CA?'' []) \<noteq>
       Inr (claimed_text trailing_text_blocks (JString ''get_alerts'')
              (JObject [(''state'', JString ''CA'')]) ''There are no alerts in California.'')"
proof -
  have b: "trailing_text_blocks = [] @ [tool_use_block] @ [JObject [(''text'', JString ''One moment.'')]]"
    by (simp add: trailing_text_blocks_def)
  have 1: "length (filter is_tool_use trailing_text_blocks) = 1"
    by (simp add: trailing_text_blocks_def tool_use_block_def)
  have 2: "fst (process_query_stdio (chat_world trailing_text_blocks) ''Any alerts in CA?'' []) =
       Inr (alerts_diagnostic @ ''\<newline>There are no alerts in California.\<newline>One moment.'')"
    unfolding b by (subst chat_world_run) (simp_all add: plain_block_def texts_of_def)
  have 3: "claimed_text trailing_text_blocks (JString ''get_alerts'')
         (JObject [(''state'', JString ''CA'')]) ''There are no alerts in California.'' =
       ''One moment.\<newline>'' @ alerts_diagnostic @ ''\<newline>There are no alerts in California.''"
    by (simp add: claimed_text_def trailing_text_blocks_def texts_of_def tool_use_block_def
        diagnostic_example)
  have 4: "alerts_diagnostic @ ''\<newline>There are no alerts in California.\<newline>One moment.'' \<noteq>
       ''One moment.\<newline>'' @ alerts_diagnostic @ ''\<newline>There are no alerts in California.''"
    by (simp add: alerts_diagnostic_def)
  show ?thesis using 1 2 3 4 by simp
qed

text \<open>
  C5, amended: when the first response consists of plain blocks around exactly one
  tool-use block (with name, input and call id), the tool call and the follow-up LLM
  call return, and the follow-up reply begins with a text, \<open>process_query\<close> (of either
  client: the system prompt is a parameter) makes exactly one tool invocation and
  exactly one follow-up LLM call, and returns the newline join of the texts up to the
  tool-use block, the diagnostic line, the first text of the follow-up reply, and the
  texts after the tool-use block.
\<close>

theorem process_query_single_tool_use:
  assumes tools: "list_tools env 0 = Inr tools"
    and first: "converse_tools env 1 (first_request system_text tools query) = Inr response"
    and contents: "response_contents response = Inr (before @ [block] @ after)"
    and before: "list_all plain_block before"
    and after: "list_all plain_block after"
    and parts: "tool_use_parts block = Some (name, args, use_id)"
    and str_ok: "text_is_string block"
    and call: "call_tool env 2 name args = Inr result"
    and followup: "converse_tools env 3
        (followup_request system_text tools query
           (filter has_text (before @ [block]) @ [block]) use_id result) = Inr followup"
    and reply: "reply_text followup = Inr (JString reply)"
  shows "process_query env system_text query [] =
      (Inr (str_join ''\<newline>''
              (texts_of (before @ [block]) @ [diagnostic name args, reply] @ texts_of after)),
       [ListTools,
        Converse (first_request system_text tools query),
        CallTool name args,
        Converse (followup_request system_text tools query
                    (filter has_text (before @ [block]) @ [block]) use_id result)])"
  using assms by (rule process_query_one_tool_use)

theorem process_query_single_tool_use_witness:
  "list_tools (chat_world leading_text_blocks) 0 = Inr [alerts_tool]
   \<and> response_contents (llm_content leading_text_blocks)
        = Inr ([JObject [(''text'', JString ''Let me look.'')]] @ [tool_use_block] @ [])
   \<and> tool_use_parts tool_use_block
        = Some (JString ''get_alerts'', JObject [(''state'', JString ''CA'')], JString ''tooluse_1'')
   \<and> process_query_stdio (chat_world leading_text_blocks) ''Any alerts in CA?'' [] =
       (Inr (''Let me look.\<newline>'' @ alerts_diagnostic @ ''\<newline>There are no alerts in California.''),
        [ListTools,
         Converse (first_request system_text_stdio [alerts_tool] ''Any alerts in CA?''),
         CallTool (JString ''get_alerts'') (JObject [(''state'', JString ''CA'')]),
         Converse (alerts_followup [JObject [(''text'', JString ''Let me look.'')], tool_use_block])])"
proof -
  let ?before = "[JObject [(''text'', JString ''Let me look.'')]]"
  have l: "leading_text_blocks = ?before @ [tool_use_block] @ []"
    by (simp add: leading_text_blocks_def)
  have r: "response_contents (llm_content bs) = Inr bs" for bs
    by (simp add: response_contents_def llm_content_def)
  have t: "reply_text (llm_content [JObject [(''text'', JString s)]]) = Inr (JString s)" for s
    by (simp add: reply_text_def llm_content_def)
  have p: "tool_use_parts tool_use_block
      = Some (JString ''get_alerts'', JObject [(''state'', JString ''CA'')], JString ''tooluse_1'')"
    by (simp add: tool_use_block_def)
  have s: "text_is_string tool_use_block" "\<not> has_text tool_use_block"
    "text_of tool_use_block = []"
    by (simp_all add: tool_use_block_def)
  have b: "list_all plain_block ?before" "list_all plain_block []"
    by (simp_all add: plain_block_def)
  show ?thesis
    unfolding process_query_stdio_def alerts_followup_def l
    using process_query_single_tool_use [of "chat_world (?before @ [tool_use_block] @ [])"
        "[alerts_tool]" system_text_stdio "''Any alerts in CA?''"
        "llm_content (?before @ [tool_use_block] @ [])" ?before tool_use_block "[]"
        "JString ''get_alerts''" "JObject [(''state'', JString ''CA'')]" "JString ''tooluse_1''"
        "[TextContent ''No active alerts for this state.'']"
        "llm_content [JObject [(''text'', JString ''There are no alerts in California.'')]]"
        "''There are no alerts in California.''", OF _ _ r b p s(1) _ _ t] r p
    by (simp add: chat_world_def diagnostic_example s texts_of_def)
qed

end
